theory Spec2Isabelle
  imports Complex_Main "HOL-Library.Sublist"
begin

section \<open>The notebooks as programs\<close>

text \<open>
  The repository consists of Jupyter notebooks. A notebook is a list of cells; a code cell is
  a list of statements, each either an IPython shell escape (\<open>!cmd\<close>) or a Python
  statement. The statements are transcribed one for one from the cells' sources.

  Everything the notebooks compute is computed inside external libraries (PyTorch,
  TensorFlow, NumPy, the Triton client). A value is therefore kept as the term that produced
  it: the literal the cell wrote, or the library call with its argument values. Two values are
  equal exactly when they were produced the same way, which is what the properties below
  need: which path a call wrote to, which name a request carried, where a tensor came from.
\<close>

subsection \<open>Values and expressions\<close>

datatype val =
    VNone
  | VBool bool
  | VInt int
  | VDec int nat                \<comment> \<open>a float literal: \<open>VDec 485 3\<close> is \<open>0.485\<close>\<close>
  | VStr string
  | VTuple "val list"
  | VList "val list"
  | VDict "val list"            \<comment> \<open>a list of \<open>VItem\<close>\<close>
  | VItem val val
  | VKw string val              \<comment> \<open>a keyword argument\<close>
  | VModule string
  | VClass string
  | VBuiltin string
  | VAttr val string            \<comment> \<open>\<open>v.a\<close>\<close>
  | VCall val "val list"        \<comment> \<open>\<open>f(args)\<close>\<close>
  | VIndex val val              \<comment> \<open>\<open>v[i]\<close>\<close>
  | VSliceTo val val            \<comment> \<open>\<open>v[:i]\<close>\<close>
  | VBin string val val         \<comment> \<open>\<open>a op b\<close>\<close>

datatype expr =
    Lit val
  | Name string
  | Attr expr string
  | Call expr "expr list"
  | Kw string expr
  | ListE "expr list"
  | TupleE "expr list"
  | DictE "expr list"
  | Item expr expr
  | Index expr expr
  | SliceTo expr expr
  | BinOp string expr expr
  | ListComp expr string expr   \<comment> \<open>\<open>[body for x in iterable]\<close>\<close>

abbreviation StrL :: "string \<Rightarrow> expr" where "StrL s \<equiv> Lit (VStr s)"
abbreviation IntL :: "int \<Rightarrow> expr" where "IntL i \<equiv> Lit (VInt i)"
abbreviation BoolL :: "bool \<Rightarrow> expr" where "BoolL b \<equiv> Lit (VBool b)"
abbreviation DecL :: "int \<Rightarrow> nat \<Rightarrow> expr" where "DecL m k \<equiv> Lit (VDec m k)"

datatype exn =
    NameError string
  | AttributeError string
  | TypeError string
  | Raised string               \<comment> \<open>an exception raised inside a library call\<close>

type_synonym env = "(string \<times> val) list"

text \<open>
  What a \<open>for\<close> or a comprehension iterates over. The notebooks iterate over
  \<open>range(n)\<close> only.
\<close>

fun iter_values :: "val \<Rightarrow> val list option" where
  "iter_values (VCall f args) =
     (if f = VBuiltin ''range''
      then (case args of
              [a] \<Rightarrow> (case a of VInt n \<Rightarrow> Some (map (\<lambda>i. VInt (int i)) [0..<nat n]) | _ \<Rightarrow> None)
            | _ \<Rightarrow> None)
      else None)"
| "iter_values (VList vs) = Some vs"
| "iter_values (VTuple vs) = Some vs"
| "iter_values _ = None"

text \<open>
  The value of a name is that of its latest binding; a name that is not bound raises
  \<open>NameError\<close>.
\<close>

fun found :: "bool \<Rightarrow> val \<Rightarrow> exn + val \<Rightarrow> exn + val" where
  "found True v r = Inr v"
| "found False v r = r"

fun lookup :: "env \<Rightarrow> string \<Rightarrow> exn + val" where
  "lookup [] x = Inl (NameError x)"
| "lookup ((k, v) # env) x = found (k = x) v (lookup env x)"

text \<open>
  The placeholder \<open>FIXME\<close> of the exercise cells is bound nowhere and is an attribute of
  no library object, so \<open>tritonhttpclient.FIXME\<close> raises \<open>AttributeError\<close>.
\<close>

fun raise_if :: "bool \<Rightarrow> exn \<Rightarrow> val \<Rightarrow> exn + val" where
  "raise_if True x v = Inl x"
| "raise_if False x v = Inr v"

definition attribute :: "string \<Rightarrow> val \<Rightarrow> exn + val" where
  "attribute a v = raise_if (a = ''FIXME'') (AttributeError a) (VAttr v a)"

text \<open>
  Passing exceptions on: a value is built from the values of the parts, and the exception
  of the first part that raises is the exception of the whole.
\<close>

fun then_value :: "(val \<Rightarrow> exn + val) \<Rightarrow> exn + val \<Rightarrow> exn + val" where
  "then_value k (Inl x) = Inl x"
| "then_value k (Inr v) = k v"

fun lift1 :: "(val \<Rightarrow> val) \<Rightarrow> exn + val \<Rightarrow> exn + val" where
  "lift1 f (Inl x) = Inl x"
| "lift1 f (Inr v) = Inr (f v)"

fun lift2 :: "(val \<Rightarrow> val \<Rightarrow> val) \<Rightarrow> exn + val \<Rightarrow> exn + val \<Rightarrow> exn + val" where
  "lift2 f (Inl x) r = Inl x"
| "lift2 f (Inr a) (Inl x) = Inl x"
| "lift2 f (Inr a) (Inr b) = Inr (f a b)"

fun lift_list :: "(val list \<Rightarrow> val) \<Rightarrow> exn + val list \<Rightarrow> exn + val" where
  "lift_list f (Inl x) = Inl x"
| "lift_list f (Inr vs) = Inr (f vs)"

fun lift_call :: "exn + val \<Rightarrow> exn + val list \<Rightarrow> exn + val" where
  "lift_call (Inl x) r = Inl x"
| "lift_call (Inr f) (Inl x) = Inl x"
| "lift_call (Inr f) (Inr args) = Inr (VCall f args)"

fun cons_value :: "exn + val \<Rightarrow> exn + val list \<Rightarrow> exn + val list" where
  "cons_value (Inl x) r = Inl x"
| "cons_value (Inr v) (Inl x) = Inl x"
| "cons_value (Inr v) (Inr vs) = Inr (v # vs)"

fun over :: "(val list \<Rightarrow> exn + val list) \<Rightarrow> val list option \<Rightarrow> exn + val" where
  "over k None = Inl (TypeError ''object is not iterable'')"
| "over k (Some is) = lift_list VList (k is)"

fun comprehend :: "(val list \<Rightarrow> exn + val list) \<Rightarrow> exn + val \<Rightarrow> exn + val" where
  "comprehend k (Inl x) = Inl x"
| "comprehend k (Inr v) = over k (iter_values v)"

text \<open>
  Evaluation of an expression; \<open>evals\<close> evaluates a list of expressions and
  \<open>eval_each\<close> the body of a comprehension for each value of its variable. Only
  library calls with no effect outside the kernel occur inside the notebooks' expressions,
  so the order in which the parts are evaluated does not show.
\<close>

function eval :: "env \<Rightarrow> expr \<Rightarrow> exn + val"
  and evals :: "env \<Rightarrow> expr list \<Rightarrow> exn + val list"
  and eval_each :: "env \<Rightarrow> string \<Rightarrow> expr \<Rightarrow> val list \<Rightarrow> exn + val list"
where
  "eval env (Lit v) = Inr v"
| "eval env (Name x) = lookup env x"
| "eval env (Attr e a) = then_value (attribute a) (eval env e)"
| "eval env (Call f args) = lift_call (eval env f) (evals env args)"
| "eval env (Kw k e) = lift1 (VKw k) (eval env e)"
| "eval env (ListE es) = lift_list VList (evals env es)"
| "eval env (TupleE es) = lift_list VTuple (evals env es)"
| "eval env (DictE es) = lift_list VDict (evals env es)"
| "eval env (Item k e) = lift2 VItem (eval env k) (eval env e)"
| "eval env (Index e i) = lift2 VIndex (eval env e) (eval env i)"
| "eval env (SliceTo e i) = lift2 VSliceTo (eval env e) (eval env i)"
| "eval env (BinOp opr a b) = lift2 (VBin opr) (eval env a) (eval env b)"
| "eval env (ListComp body x r) = comprehend (eval_each env x body) (eval env r)"
| "evals env [] = Inr []"
| "evals env (e # es) = cons_value (eval env e) (evals env es)"
| "eval_each env x body [] = Inr []"
| "eval_each env x body (i # is) =
     cons_value (eval ((x, i) # env) body) (eval_each env x body is)"
  by pat_completeness auto
termination
  by (relation "inv_image (less_than <*lex*> less_than)
        (\<lambda>a. case a of
           Inl (env, e) \<Rightarrow> (size e, 0)
         | Inr (Inl (env, es)) \<Rightarrow> (size_list size es, 0)
         | Inr (Inr (env, x, body, is)) \<Rightarrow> (size body, Suc (length is)))")
     auto

subsection \<open>Statements, cells and what running them does\<close>

datatype stmt =
    Shell "string list"              \<comment> \<open>\<open>!cmd\<close>, as its words\<close>
  | Import string string            \<comment> \<open>\<open>import m as x\<close>\<close>
  | FromImport string "string list" \<comment> \<open>\<open>from m import x, y\<close>\<close>
  | ClassDef string "expr list"     \<comment> \<open>\<open>class C(bases): ...\<close>\<close>
  | Assign "string list" expr       \<comment> \<open>\<open>x = e\<close> and \<open>x, y = e\<close>\<close>
  | ExprStmt expr
  | With expr string "stmt list"    \<comment> \<open>\<open>with e as x: body\<close>\<close>
  | For string expr "stmt list"     \<comment> \<open>\<open>for x in e: body\<close>\<close>
  | IfElse expr "stmt list" "stmt list"
  | Try "stmt list" "stmt list"     \<comment> \<open>\<open>try: body except: handler\<close>\<close>

datatype cell = Markdown | Code "stmt list"

text \<open>
  What a run does to the world outside the kernel: the shell commands it runs and the
  library calls that touch the file system, the server, the cell's output or the kernel.
\<close>

datatype event = Sh "string list" | Lib val

type_synonym state = "env \<times> event list"

text \<open>
  The dotted path of a library function, read off the value that names it:
  \<open>torch.onnx.export\<close> is \<open>[torch, onnx, export]\<close>, and a function of a call's
  result goes through \<open>()\<close>: \<open>torch.jit.script(m).save\<close> is
  \<open>[torch, jit, script, (), save]\<close>.
\<close>

fun path_of :: "val \<Rightarrow> string list" where
  "path_of (VModule m) = [m]"
| "path_of (VBuiltin f) = [f]"
| "path_of (VClass c) = [c]"
| "path_of (VAttr v a) = path_of v @ [a]"
| "path_of (VCall f _) = path_of f @ [''()'']"
| "path_of _ = [''?'']"

text \<open>
  The library calls with an effect outside the kernel, by the path of the function called:
  output to the cell, opening and writing a file, the three exports of a model, the three
  requests of the Triton HTTP client, and the kernel shutdown. The notebooks make each of
  these calls as a statement of its own, as the right-hand side of an assignment or as the
  context of a \<open>with\<close>, which is where \<open>exec\<close> looks for them. Every other
  library call only computes a value.
\<close>

definition effects :: "string list list" where
  "effects =
    [[''print''],
     [''open''],
     [''open'', ''()'', ''write''],
     [''torch'', ''jit'', ''script'', ''()'', ''save''],
     [''torch'', ''onnx'', ''export''],
     [''tensorflow'', ''saved_model'', ''save''],
     [''tritonclient.http'', ''InferenceServerClient'', ''()'', ''get_model_metadata''],
     [''tritonclient.http'', ''InferenceServerClient'', ''()'', ''get_model_config''],
     [''tritonclient.http'', ''InferenceServerClient'', ''()'', ''infer''],
     [''IPython'', ''Application'', ''instance'', ''()'', ''kernel'', ''do_shutdown'']]"

fun effectful :: "val \<Rightarrow> bool" where
  "effectful (VCall f _) = (path_of f \<in> set effects)"
| "effectful _ = False"

text \<open>
  The world decides which library calls raise: given the events so far and the call about to
  be made, it answers with the exception the call raises, if any. A shell escape never
  raises in the kernel, whatever the command's exit status.
\<close>

type_synonym world = "event list \<Rightarrow> event \<Rightarrow> exn option"

type_synonym result = "exn option \<times> state"

fun quiet :: world where
  "quiet tr ev = None"

declare quiet.simps [simp del]

fun emit :: "bool \<Rightarrow> world \<Rightarrow> val \<Rightarrow> state \<Rightarrow> result" where
  "emit True w v (env, tr) = (w tr (Lib v), (env, tr @ [Lib v]))"
| "emit False w v st = (None, st)"

definition perform :: "world \<Rightarrow> val \<Rightarrow> state \<Rightarrow> result" where
  "perform w v st = emit (effectful v) w v st"

fun bind_targets :: "string list \<Rightarrow> val \<Rightarrow> env \<Rightarrow> env" where
  "bind_targets [x] v env = (x, v) # env"
| "bind_targets xs v env =
     zip xs (map (\<lambda>i. VIndex v (VInt (int i))) [0..<length xs]) @ env"

text \<open>
  \<open>input0.set_data_from_numpy(...)\<close> changes the object \<open>input0\<close> names: from
  then on the name stands for the object with its data set.
\<close>

fun mutate :: "expr \<Rightarrow> val \<Rightarrow> env \<Rightarrow> env" where
  "mutate (Call f _) v env =
     (case f of
        Attr r m \<Rightarrow>
          (case r of
             Name x \<Rightarrow> if m = ''set_data_from_numpy'' then (x, v) # env else env
           | _ \<Rightarrow> env)
      | _ \<Rightarrow> env)"
| "mutate _ _ env = env"

text \<open>
  Going on after a step: \<open>andthen r k\<close> stops with the exception of \<open>r\<close> or goes on
  with \<open>k\<close>; \<open>with_value\<close> does so after evaluating an expression, and
  \<open>recover\<close> is the \<open>except\<close> clause, which goes on only after an exception.
\<close>

fun andthen :: "result \<Rightarrow> (state \<Rightarrow> result) \<Rightarrow> result" where
  "andthen (Some x, st) k = (Some x, st)"
| "andthen (None, st) k = k st"

fun with_value :: "exn + val \<Rightarrow> (val \<Rightarrow> state \<Rightarrow> result) \<Rightarrow> state \<Rightarrow> result" where
  "with_value (Inl x) k st = (Some x, st)"
| "with_value (Inr v) k st = k v st"

fun recover :: "result \<Rightarrow> (state \<Rightarrow> result) \<Rightarrow> result" where
  "recover (Some x, st) k = k st"
| "recover (None, st) k = (None, st)"

text \<open>
  The statements, once the expression has its value \<open>v\<close>: an assignment and an
  expression statement make the call, if \<open>v\<close> is a call with an effect, and then bind
  the targets or note the change of the object; a class statement binds the class; a
  \<open>with\<close> makes the call and runs its body with the name bound; a \<open>for\<close> runs
  its body for each value \<open>v\<close> yields; an \<open>if\<close> picks a branch.
\<close>

fun bound :: "string list \<Rightarrow> val \<Rightarrow> state \<Rightarrow> result" where
  "bound xs v (env, tr) = (None, (bind_targets xs v env, tr))"

definition assign :: "world \<Rightarrow> string list \<Rightarrow> val \<Rightarrow> state \<Rightarrow> result" where
  "assign w xs v st = andthen (perform w v st) (bound xs v)"

fun mutated :: "expr \<Rightarrow> val \<Rightarrow> state \<Rightarrow> result" where
  "mutated e v (env, tr) = (None, (mutate e v env, tr))"

definition evaluate :: "world \<Rightarrow> expr \<Rightarrow> val \<Rightarrow> state \<Rightarrow> result" where
  "evaluate w e v st = andthen (perform w v st) (mutated e v)"

fun define_class :: "string \<Rightarrow> exn + val list \<Rightarrow> state \<Rightarrow> result" where
  "define_class c (Inl x) st = (Some x, st)"
| "define_class c (Inr bases) (env, tr) = (None, ((c, VClass c) # env, tr))"

fun inside :: "string \<Rightarrow> val \<Rightarrow> (state \<Rightarrow> result) \<Rightarrow> state \<Rightarrow> result" where
  "inside x v k (env, tr) = k ((x, v) # env, tr)"

definition enter :: "world \<Rightarrow> string \<Rightarrow> (state \<Rightarrow> result) \<Rightarrow> val \<Rightarrow> state \<Rightarrow> result" where
  "enter w x k v st = andthen (perform w v st) (inside x v k)"

fun loop_over :: "(val list \<Rightarrow> state \<Rightarrow> result) \<Rightarrow> val list option \<Rightarrow> state \<Rightarrow> result" where
  "loop_over k None st = (Some (TypeError ''object is not iterable''), st)"
| "loop_over k (Some vs) st = k vs st"

definition loop :: "(val list \<Rightarrow> state \<Rightarrow> result) \<Rightarrow> val \<Rightarrow> state \<Rightarrow> result" where
  "loop k v st = loop_over k (iter_values v) st"

fun truth :: "val \<Rightarrow> bool option" where
  "truth (VBool b) = Some b"
| "truth _ = None"

fun branch_on ::
  "(state \<Rightarrow> result) \<Rightarrow> (state \<Rightarrow> result) \<Rightarrow> bool option \<Rightarrow> state \<Rightarrow> result" where
  "branch_on ka kb (Some True) st = ka st"
| "branch_on ka kb (Some False) st = kb st"
| "branch_on ka kb None st = (Some (TypeError ''condition is not a bool''), st)"

definition branch :: "(state \<Rightarrow> result) \<Rightarrow> (state \<Rightarrow> result) \<Rightarrow> val \<Rightarrow> state \<Rightarrow> result" where
  "branch ka kb v st = branch_on ka kb (truth v) st"

definition from_module :: "string \<Rightarrow> string \<Rightarrow> string \<times> val" where
  "from_module m x = (x, VAttr (VModule m) x)"

function exec :: "world \<Rightarrow> stmt \<Rightarrow> state \<Rightarrow> result"
  and block :: "world \<Rightarrow> stmt list \<Rightarrow> state \<Rightarrow> result"
  and iterate :: "world \<Rightarrow> string \<Rightarrow> stmt list \<Rightarrow> val list \<Rightarrow> state \<Rightarrow> result"
where
  "exec w (Shell argv) (env, tr) = (None, (env, tr @ [Sh argv]))"
| "exec w (Import m x) (env, tr) = (None, ((x, VModule m) # env, tr))"
| "exec w (FromImport m xs) (env, tr) = (None, (map (from_module m) xs @ env, tr))"
| "exec w (ClassDef c bases) (env, tr) = define_class c (evals env bases) (env, tr)"
| "exec w (Assign xs e) (env, tr) = with_value (eval env e) (assign w xs) (env, tr)"
| "exec w (ExprStmt e) (env, tr) = with_value (eval env e) (evaluate w e) (env, tr)"
| "exec w (With e x body) (env, tr) =
     with_value (eval env e) (enter w x (block w body)) (env, tr)"
| "exec w (For x e body) (env, tr) =
     with_value (eval env e) (loop (iterate w x body)) (env, tr)"
| "exec w (IfElse c a b) (env, tr) =
     with_value (eval env c) (branch (block w a) (block w b)) (env, tr)"
| "exec w (Try body handler) st = recover (block w body st) (block w handler)"
| "block w [] st = (None, st)"
| "block w (s # ss) st = andthen (exec w s st) (block w ss)"
| "iterate w x body [] st = (None, st)"
| "iterate w x body (v # vs) (env, tr) =
     andthen (block w body ((x, v) # env, tr)) (iterate w x body vs)"
  by pat_completeness auto
termination
  by (relation "inv_image (less_than <*lex*> less_than)
        (\<lambda>a. case a of
           Inl (w, s, st) \<Rightarrow> (size s, 0)
         | Inr (Inl (w, ss, st)) \<Rightarrow> (size_list size ss, 0)
         | Inr (Inr (w, x, body, vs, st)) \<Rightarrow> (size_list size body, Suc (length vs)))")
     auto

text \<open>
  The kernel starts with Python's builtins. \<open>run_all\<close> is \<open>Run All\<close>: the cells
  from top to bottom, stopping at the first cell that raises. \<open>run_each\<close> is a reader
  running every cell in turn: a cell that raises stops there, with its exception shown under
  it, and the next cell still runs.
\<close>

definition kernel :: state where
  "kernel = ([(''print'', VBuiltin ''print''), (''open'', VBuiltin ''open''),
              (''range'', VBuiltin ''range'')], [])"

fun run_cells :: "world \<Rightarrow> cell list \<Rightarrow> state \<Rightarrow> result" where
  "run_cells w [] st = (None, st)"
| "run_cells w (Markdown # cs) st = run_cells w cs st"
| "run_cells w (Code ss # cs) st = andthen (block w ss st) (run_cells w cs)"

fun shown :: "exn option \<Rightarrow> exn list \<times> state \<Rightarrow> exn list \<times> state" where
  "shown None r = r"
| "shown (Some x) (xs, st) = (x # xs, st)"

fun and_next :: "result \<Rightarrow> (state \<Rightarrow> exn list \<times> state) \<Rightarrow> exn list \<times> state" where
  "and_next (r, st) k = shown r (k st)"

fun each_cell :: "world \<Rightarrow> cell list \<Rightarrow> state \<Rightarrow> exn list \<times> state" where
  "each_cell w [] st = ([], st)"
| "each_cell w (Markdown # cs) st = each_cell w cs st"
| "each_cell w (Code ss # cs) st = and_next (block w ss st) (each_cell w cs)"

definition run_all :: "world \<Rightarrow> cell list \<Rightarrow> result" where
  "run_all w nb = run_cells w nb kernel"

definition run_each :: "world \<Rightarrow> cell list \<Rightarrow> exn list \<times> state" where
  "run_each w nb = each_cell w nb kernel"

fun events :: "'a \<times> state \<Rightarrow> event list" where
  "events (r, (env, tr)) = tr"

definition trace_all :: "world \<Rightarrow> cell list \<Rightarrow> event list" where
  "trace_all w nb = events (run_all w nb)"

definition trace_each :: "world \<Rightarrow> cell list \<Rightarrow> event list" where
  "trace_each w nb = events (run_each w nb)"

subsection \<open>The three notebooks\<close>

text \<open>
  A triple-quoted string that starts and ends with a line break, given by its lines.
\<close>

definition text_block :: "string list \<Rightarrow> string" where
  "text_block ls = concat (map (\<lambda>l. CHR 0x0A # l) ls) @ [CHR 0x0A]"

text \<open>
  Cells whose source is the same, character for character, wherever they occur.
  \<open>cell_labels\<close> is the statement that loads the label list;
  \<open>cell_client\<close> creates the client and asks for the model's metadata and
  configuration; \<open>cell_infer\<close> builds the request, sends it and reads the output
  tensor; \<open>cell_decode\<close> prints the label of the largest logit; \<open>cell_shutdown\<close>
  restarts the kernel. \<open>cell_fixme_names\<close> and \<open>cell_fixme_infer\<close> are the
  exercise templates, left for the reader to fill in.
\<close>

definition load_labels :: "stmt list" where
  "load_labels =
     [Import ''json'' ''json'',
      With (Call (Name ''open'') [StrL ''./imagenet-simple-labels.json'']) ''file''
        [Assign [''labels''] (Call (Attr (Name ''json'') ''load'') [Name ''file''])]]"

definition cell_client :: cell where
  "cell_client = Code
     [Assign [''triton_client'']
        (Call (Attr (Name ''tritonhttpclient'') ''InferenceServerClient'')
           [Kw ''url'' (Name ''url''), Kw ''verbose'' (Name ''VERBOSE'')]),
      Assign [''model_metadata'']
        (Call (Attr (Name ''triton_client'') ''get_model_metadata'')
           [Kw ''model_name'' (Name ''model_name''),
            Kw ''model_version'' (Name ''model_version'')]),
      Assign [''model_config'']
        (Call (Attr (Name ''triton_client'') ''get_model_config'')
           [Kw ''model_name'' (Name ''model_name''),
            Kw ''model_version'' (Name ''model_version'')])]"

definition infer_stmts :: "stmt list" where
  "infer_stmts =
     [Assign [''input0'']
        (Call (Attr (Name ''tritonhttpclient'') ''InferInput'')
           [Name ''input_name'', Name ''input_shape'', Name ''input_dtype'']),
      ExprStmt (Call (Attr (Name ''input0'') ''set_data_from_numpy'')
                  [Name ''image_numpy'', Kw ''binary_data'' (BoolL False)]),
      Assign [''output'']
        (Call (Attr (Name ''tritonhttpclient'') ''InferRequestedOutput'')
           [Name ''output_name'', Kw ''binary_data'' (BoolL False)]),
      Assign [''response'']
        (Call (Attr (Name ''triton_client'') ''infer'')
           [Name ''model_name'',
            Kw ''model_version'' (Name ''model_version''),
            Kw ''inputs'' (ListE [Name ''input0'']),
            Kw ''outputs'' (ListE [Name ''output''])]),
      Assign [''logits''] (Call (Attr (Name ''response'') ''as_numpy'') [Name ''output_name'']),
      Assign [''logits'']
        (Call (Attr (Name ''np'') ''asarray'')
           [Name ''logits'', Kw ''dtype'' (Attr (Name ''np'') ''float32'')])]"

definition cell_infer :: cell where
  "cell_infer = Code infer_stmts"

definition cell_decode :: cell where
  "cell_decode = Code
     [ExprStmt (Call (Name ''print'')
        [Index (Name ''labels'') (Call (Attr (Name ''np'') ''argmax'') [Name ''logits''])])]"

definition cell_shutdown :: cell where
  "cell_shutdown = Code
     [Import ''IPython'' ''IPython'',
      ExprStmt
        (Call (Attr (Attr (Call (Attr (Attr (Name ''IPython'') ''Application'') ''instance'') [])
                       ''kernel'') ''do_shutdown'')
           [BoolL True])]"

definition cell_fixme_names :: cell where
  "cell_fixme_names = Code
     [Assign [''VERBOSE''] (Name ''FIXME''),
      Assign [''input_name''] (Name ''FIXME''),
      Assign [''input_shape''] (Name ''FIXME''),
      Assign [''input_dtype''] (Name ''FIXME''),
      Assign [''output_name''] (Name ''FIXME''),
      Assign [''model_name''] (Name ''FIXME''),
      Assign [''url''] (Name ''FIXME''),
      Assign [''model_version''] (Name ''FIXME'')]"

definition cell_fixme_infer :: cell where
  "cell_fixme_infer = Code
     [Assign [''input0''] (Name ''FIXME''),
      Assign [''output''] (Name ''FIXME''),
      Assign [''response''] (Name ''FIXME''),
      Assign [''logits''] (Call (Attr (Name ''response'') ''as_numpy'') [Name ''output_name'']),
      Assign [''logits'']
        (Call (Attr (Name ''np'') ''asarray'')
           [Name ''logits'', Kw ''dtype'' (Attr (Name ''np'') ''float32'')])]"

text \<open>
  The cell that names the model and its tensors, with the literals it assigns, and the cell
  that writes a configuration text to a file.
\<close>

definition cell_names :: "string \<Rightarrow> int list \<Rightarrow> string \<Rightarrow> string \<Rightarrow> cell" where
  "cell_names input_name input_shape output_name model_name = Code
     [Assign [''VERBOSE''] (BoolL False),
      Assign [''input_name''] (StrL input_name),
      Assign [''input_shape''] (TupleE (map IntL input_shape)),
      Assign [''input_dtype''] (StrL ''FP32''),
      Assign [''output_name''] (StrL output_name),
      Assign [''model_name''] (StrL model_name),
      Assign [''url''] (StrL ''triton:8000''),
      Assign [''model_version''] (StrL ''1'')]"

definition cell_config :: "string \<Rightarrow> string \<Rightarrow> cell" where
  "cell_config configuration path = Code
     [Assign [''configuration''] (StrL configuration),
      With (Call (Name ''open'') [StrL path, StrL ''w'']) ''file''
        [ExprStmt (Call (Attr (Name ''file'') ''write'') [Name ''configuration''])]]"

definition sleep_45 :: cell where
  "sleep_45 = Code [Shell [''sleep'', ''45'']]"

definition curl_ready :: cell where
  "curl_ready = Code [Shell [''curl'', ''-v'', ''triton:8000/v2/health/ready'']]"

text \<open>\<open>notebooks/04_Simple_TensorFlow_Model.ipynb\<close>\<close>

definition configuration_tensorflow :: string where
  \<open>configuration_tensorflow = text_block
    [''name: "simple-tensorflow-model"'',
     ''platform: "tensorflow_savedmodel"'',
     ''max_batch_size: 32'',
     ''input ['',
     '' {'',
     ''    name: "input_0"'',
     ''    data_type: TYPE_FP32'',
     ''    format: FORMAT_NHWC'',
     ''    dims: [ 224, 224, 3 ]'',
     ''  }'',
     '']'',
     ''output {'',
     ''    name: "output_0"'',
     ''    data_type: TYPE_FP32'',
     ''    dims: [ 1000 ]'',
     ''  }'']\<close>

definition notebook_04 :: "cell list" where
  "notebook_04 =
   [Markdown, Markdown, Markdown,
    Code
     [Shell [''mkdir'', ''-p'', ''models/simple-tensorflow-model/''],
      Shell [''mkdir'', ''-p'', ''models/simple-tensorflow-model/1/'']],
    Markdown,
    Code
     [Import ''tensorflow'' ''tf'',
      ExprStmt (Call (Attr (Attr (Attr (Name ''tf'') ''config'') ''optimizer'') ''set_jit'')
                  [BoolL True]),
      ClassDef ''WrappedModel'' [Attr (Name ''tf'') ''Module''],
      Assign [''model''] (Call (Name ''WrappedModel'') []),
      Assign [''call'']
        (Call (Attr (Attr (Name ''model'') ''__call__'') ''get_concrete_function'')
           [Call (Attr (Name ''tf'') ''TensorSpec'')
              [ListE [Lit VNone, Lit VNone, Lit VNone, Lit VNone],
               Attr (Name ''tf'') ''float32'',
               Kw ''name'' (StrL ''input_0'')]]),
      ExprStmt (Call (Attr (Attr (Name ''tf'') ''saved_model'') ''save'')
                  [Name ''model'',
                   StrL ''models/simple-tensorflow-model/1/model.savedmodel'',
                   Kw ''signatures'' (Name ''call'')])],
    Markdown,
    Code (load_labels @
      [ExprStmt (Call (Name ''print'') [SliceTo (Name ''labels'') (IntL 5)])]),
    Markdown,
    Code
     [Import ''numpy'' ''np'',
      FromImport ''PIL'' [''Image''],
      Assign [''img_path''] (StrL ''./assets/goldfish.jpg''),
      Assign [''image_pil''] (Call (Attr (Name ''Image'') ''open'') [Name ''img_path'']),
      ExprStmt (Name ''image_pil'')],
    Markdown,
    Code
     [FromImport ''tensorflow.keras.applications.resnet50'' [''ResNet50''],
      FromImport ''tensorflow.keras.preprocessing'' [''image''],
      FromImport ''tensorflow.keras.applications.resnet50''
        [''preprocess_input'', ''decode_predictions''],
      Import ''numpy'' ''np'',
      Assign [''model''] (Call (Name ''ResNet50'') [Kw ''weights'' (StrL ''imagenet'')]),
      Assign [''img'']
        (Call (Attr (Name ''image'') ''load_img'')
           [Name ''img_path'', Kw ''target_size'' (TupleE [IntL 224, IntL 224])]),
      Assign [''image_numpy''] (Call (Attr (Name ''image'') ''img_to_array'') [Name ''img'']),
      Assign [''image_numpy'']
        (Call (Attr (Name ''np'') ''expand_dims'') [Name ''image_numpy'', Kw ''axis'' (IntL 0)]),
      Assign [''image_numpy''] (Call (Name ''preprocess_input'') [Name ''image_numpy'']),
      Assign [''preds''] (Call (Attr (Name ''model'') ''predict'') [Name ''image_numpy'']),
      ExprStmt (Call (Name ''print'')
                  [StrL ''Predicted:'',
                   Index (Call (Name ''decode_predictions'') [Name ''preds'', Kw ''top'' (IntL 3)])
                     (IntL 0)])],
    Markdown,
    cell_config configuration_tensorflow ''models/simple-tensorflow-model/config.pbtxt'',
    Markdown,
    sleep_45,
    Markdown,
    curl_ready,
    Markdown,
    Code [Shell [''curl'', ''-v'', ''triton:8000/v2/models/simple-tensorflow-model'']],
    Markdown,
    Code
     [Import ''tritonclient.http'' ''tritonhttpclient'',
      FromImport ''tritonclient.utils'' [''triton_to_np_dtype'']],
    Markdown,
    cell_names ''input_0'' [1, 224, 224, 3] ''output_0'' ''simple-tensorflow-model'',
    Markdown,
    cell_client,
    Markdown,
    cell_infer,
    Markdown,
    cell_decode,
    Markdown,
    Code [Shell [''rm'', ''-rf'', ''models/simple-tensorflow-model'']],
    cell_shutdown,
    Markdown]"

text \<open>
  \<open>02_Simple_PyTorch_Model.ipynb\<close>. The bodies of the two classes run inside the
  framework only (\<open>__init__\<close> when the class is called, \<open>forward\<close> when the
  model is); the class statement itself evaluates the base class.
\<close>

definition configuration_pytorch :: string where
  \<open>configuration_pytorch = text_block
    [''name: "simple-pytorch-model"'',
     ''platform: "pytorch_libtorch"'',
     ''max_batch_size: 32'',
     ''input ['',
     '' {'',
     ''    name: "input__0"'',
     ''    data_type: TYPE_FP32'',
     ''    format: FORMAT_NCHW'',
     ''    dims: [ 3, 224, 224 ]'',
     ''  }'',
     '']'',
     ''output {'',
     ''    name: "output__0"'',
     ''    data_type: TYPE_FP32'',
     ''    dims: [ 1000 ]'',
     ''  }'']\<close>

definition configuration_onnx :: string where
  \<open>configuration_onnx = text_block
    [''name: "simple-onnx-model"'',
     ''platform: "onnxruntime_onnx"'',
     ''max_batch_size: 32'',
     ''input ['',
     '' {'',
     ''    name: "actual_input_1"'',
     ''    data_type: TYPE_FP32'',
     ''    format: FORMAT_NCHW'',
     ''    dims: [ 3, 224, 224 ]'',
     ''  }'',
     '']'',
     ''output {'',
     ''    name: "output1"'',
     ''    data_type: TYPE_FP32'',
     ''    dims: [ 1000]'',
     ''  }'']\<close>

definition cell_image_numpy :: cell where
  "cell_image_numpy = Code
     [Assign [''image_numpy'']
        (Call (Attr (Call (Attr (Name ''image_tensor'') ''cpu'') []) ''numpy'') []),
      ExprStmt (Call (Name ''print'') [Attr (Name ''image_numpy'') ''shape''])]"

definition notebook_02 :: "cell list" where
  "notebook_02 =
   [Markdown, Markdown, Markdown,
    Code
     [Shell [''mkdir'', ''-p'', ''models/simple-pytorch-model''],
      Shell [''mkdir'', ''-p'', ''models/simple-pytorch-model/1''],
      Shell [''mkdir'', ''-p'', ''models/simple-onnx-model''],
      Shell [''mkdir'', ''-p'', ''models/simple-onnx-model/1'']],
    Markdown,
    Code
     [Import ''torch'' ''torch'',
      FromImport ''torch'' [''nn''],
      FromImport ''torchvision'' [''models''],
      ClassDef ''Model'' [Attr (Name ''nn'') ''Module''],
      Assign [''model'']
        (Call (Attr (Call (Attr (Call (Name ''Model'') []) ''eval'') []) ''cuda'') [])],
    Markdown,
    Code (load_labels @
      [ExprStmt (Call (Name ''print'') [SliceTo (Name ''labels'') (IntL 5)])]),
    Markdown,
    Code
     [Import ''numpy'' ''np'',
      FromImport ''PIL'' [''Image''],
      Assign [''image''] (Call (Attr (Name ''Image'') ''open'') [StrL ''./assets/goldfish.jpg'']),
      ExprStmt (Name ''image'')],
    Markdown,
    Code
     [FromImport ''torchvision'' [''transforms''],
      Assign [''imagenet_mean''] (ListE [DecL 485 3, DecL 456 3, DecL 406 3]),
      Assign [''imagenet_std''] (ListE [DecL 485 3, DecL 456 3, DecL 406 3]),
      Assign [''resize'']
        (Call (Attr (Name ''transforms'') ''Resize'') [TupleE [IntL 256, IntL 256]]),
      Assign [''center_crop''] (Call (Attr (Name ''transforms'') ''CenterCrop'') [IntL 224]),
      Assign [''to_tensor''] (Call (Attr (Name ''transforms'') ''ToTensor'') []),
      Assign [''normalize'']
        (Call (Attr (Name ''transforms'') ''Normalize'')
           [Kw ''mean'' (Name ''imagenet_mean''), Kw ''std'' (Name ''imagenet_std'')]),
      Assign [''transform'']
        (Call (Attr (Name ''transforms'') ''Compose'')
           [ListE [Name ''resize'', Name ''center_crop'', Name ''to_tensor'',
                   Name ''normalize'']])],
    Markdown,
    Code
     [Assign [''image_tensor'']
        (Call (Attr (Call (Attr (Call (Name ''transform'') [Name ''image'']) ''unsqueeze'')
                       [IntL 0]) ''cuda'') []),
      Assign [''logits''] (Call (Name ''model'') [Name ''image_tensor'']),
      Assign [''K''] (IntL 3),
      Assign [''values'', ''indices'']
        (Call (Attr (Name ''torch'') ''topk'') [Name ''logits'', Name ''K'']),
      Assign [''values'']
        (Index (Call (Attr (Call (Attr (Name ''values'') ''detach'') []) ''tolist'') [])
           (IntL 0)),
      Assign [''indices'']
        (Index (Call (Attr (Call (Attr (Name ''indices'') ''detach'') []) ''tolist'') [])
           (IntL 0)),
      For ''i'' (Call (Name ''range'') [Name ''K''])
        [ExprStmt (Call (Name ''print'')
           [Index (Name ''values'') (Name ''i''),
            Index (Name ''indices'') (Name ''i''),
            Index (Name ''labels'') (Index (Name ''indices'') (Name ''i''))])]],
    Markdown,
    Code
     [ClassDef ''PyTorch_to_TorchScript'' [Attr (Name ''nn'') ''Module''],
      Assign [''torchscript_model'']
        (Call (Attr (Call (Attr (Call (Name ''PyTorch_to_TorchScript'') [Name ''model''])
                             ''eval'') []) ''cuda'') []),
      Assign [''traced_script_module'']
        (Call (Attr (Attr (Name ''torch'') ''jit'') ''script'') [Name ''torchscript_model'']),
      ExprStmt (Call (Attr (Name ''traced_script_module'') ''save'')
                  [StrL ''models/simple-pytorch-model/1/model.pt''])],
    Markdown,
    Code
     [Assign [''dummy_input'']
        (Call (Attr (Call (Attr (Name ''torch'') ''randn'') [IntL 1, IntL 3, IntL 224, IntL 224])
                 ''cuda'') []),
      Assign [''input_names'']
        (BinOp ''+'' (ListE [StrL ''actual_input_1''])
           (ListComp (BinOp ''%'' (StrL ''learned_%d'') (Name ''i'')) ''i''
              (Call (Name ''range'') [IntL 16]))),
      Assign [''output_names''] (ListE [StrL ''output1'']),
      ExprStmt (Call (Attr (Attr (Name ''torch'') ''onnx'') ''export'')
                  [Name ''model'', Name ''dummy_input'',
                   StrL ''models/simple-onnx-model/1/model.onnx'',
                   Kw ''verbose'' (BoolL False),
                   Kw ''input_names'' (Name ''input_names''),
                   Kw ''output_names'' (Name ''output_names''),
                   Kw ''dynamic_axes''
                     (DictE [Item (StrL ''actual_input_1'')
                               (DictE [Item (IntL 0) (StrL ''batch_size'')]),
                             Item (StrL ''output1'')
                               (DictE [Item (IntL 0) (StrL ''batch_size'')])])])],
    Markdown,
    cell_config configuration_pytorch ''models/simple-pytorch-model/config.pbtxt'',
    Markdown,
    cell_config configuration_onnx ''models/simple-onnx-model/config.pbtxt'',
    Markdown,
    sleep_45,
    Markdown,
    curl_ready,
    Markdown,
    Code [Shell [''curl'', ''-v'', ''triton:8000/v2/models/simple-pytorch-model'']],
    Code [Shell [''curl'', ''-v'', ''triton:8000/v2/models/simple-onnx-model'']],
    Markdown,
    Code [Import ''tritonclient.http'' ''tritonhttpclient''],
    Markdown,
    cell_names ''input__0'' [1, 3, 224, 224] ''output__0'' ''simple-pytorch-model'',
    Markdown,
    cell_client,
    Markdown,
    cell_image_numpy,
    Markdown,
    Code (infer_stmts @
      [ExprStmt (Call (Name ''print'') [Attr (Name ''logits'') ''shape''])]),
    Markdown,
    cell_decode,
    Markdown, Markdown,
    cell_fixme_names,
    cell_names ''actual_input_1'' [1, 3, 224, 224] ''output1'' ''simple-onnx-model'',
    Markdown,
    Code
     [Assign [''triton_client'']
        (Call (Attr (Name ''tritonhttpclient'') ''FIXME'')
           [Kw ''url'' (Name ''url''), Kw ''verbose'' (Name ''VERBOSE'')]),
      Assign [''model_metadata'']
        (Call (Attr (Name ''triton_client'') ''FIXME'')
           [Kw ''model_name'' (Name ''model_name''),
            Kw ''model_version'' (Name ''model_version'')]),
      Assign [''model_config'']
        (Call (Attr (Name ''triton_client'') ''FIXME'')
           [Kw ''model_name'' (Name ''model_name''),
            Kw ''model_version'' (Name ''model_version'')])],
    cell_client,
    Markdown,
    cell_image_numpy,
    Markdown,
    cell_fixme_infer,
    cell_infer,
    Markdown,
    cell_decode,
    Markdown,
    cell_shutdown,
    Markdown]"

text \<open>
  \<open>05_Simple_TensorRT_Model.ipynb\<close>. The second code cell holds a comment only.
  A command continued over several lines with backslashes is one command.
\<close>

definition configuration_fp32 :: string where
  \<open>configuration_fp32 = text_block
    [''name: "simple-tensorrt-fp32-model"'',
     ''platform: "tensorrt_plan"'',
     ''max_batch_size: 32'',
     ''input ['',
     '' {'',
     ''    name: "actual_input_1"'',
     ''    data_type: TYPE_FP32'',
     ''    format: FORMAT_NCHW'',
     ''    dims: [ 3, 224, 224 ]'',
     ''  }'',
     '']'',
     ''output {'',
     ''    name: "output1"'',
     ''    data_type: TYPE_FP32'',
     ''    dims: [ 1000 ]'',
     ''  }'']\<close>

definition configuration_fp16 :: string where
  \<open>configuration_fp16 = text_block
    [''name: "simple-tensorrt-fp16-model"'',
     ''platform: "tensorrt_plan"'',
     ''max_batch_size: 32'',
     ''input ['',
     '' {'',
     ''    name: "actual_input_1"'',
     ''    data_type: TYPE_FP32'',
     ''    format: FORMAT_NCHW'',
     ''    dims: [ 3, 224, 224 ]'',
     ''  }'',
     '']'',
     ''output {'',
     ''    name: "output1"'',
     ''    data_type: TYPE_FP32'',
     ''    dims: [ 1000 ]'',
     ''  }'']\<close>

definition trtexec_fp32 :: "string list" where
  "trtexec_fp32 =
     [''trtexec'',
      ''--onnx=models/simple-onnx-model/1/model.onnx'',
      ''--explicitBatch'',
      ''--optShapes=actual_input_1:16x3x224x224'',
      ''--maxShapes=actual_input_1:32x3x224x224'',
      ''--minShapes=actual_input_1:1x3x224x224'',
      ''--shapes=actual_input_1:1x3x224x224'',
      ''--saveEngine=models/simple-tensorrt-fp32-model/1/model.plan'']"

definition trtexec_fp16 :: "string list" where
  "trtexec_fp16 =
     [''trtexec'',
      ''--onnx=models/simple-onnx-model/1/model.onnx'',
      ''--explicitBatch'',
      ''--optShapes=actual_input_1:16x3x224x224'',
      ''--maxShapes=actual_input_1:32x3x224x224'',
      ''--minShapes=actual_input_1:1x3x224x224'',
      ''--shapes=actual_input_1:1x3x224x224'',
      ''--saveEngine=models/simple-tensorrt-fp16-model/1/model.plan'',
      ''--fp16'']"

definition notebook_05 :: "cell list" where
  "notebook_05 =
   [Markdown, Markdown, Markdown, Markdown,
    Code
     [Shell [''mkdir'', ''-p'', ''models/simple-tensorrt-fp32-model/''],
      Shell [''mkdir'', ''-p'', ''models/simple-tensorrt-fp32-model/1/''],
      Shell [''mkdir'', ''-p'', ''models/simple-tensorrt-fp16-model/''],
      Shell [''mkdir'', ''-p'', ''models/simple-tensorrt-fp16-model/1/'']],
    Markdown,
    Code [],
    Code [Shell trtexec_fp32],
    Markdown, Markdown,
    Code [Shell trtexec_fp16],
    Markdown,
    cell_config configuration_fp32 ''models/simple-tensorrt-fp32-model/config.pbtxt'',
    Markdown,
    cell_config configuration_fp16 ''models/simple-tensorrt-fp16-model/config.pbtxt'',
    Markdown,
    sleep_45,
    Markdown,
    curl_ready,
    Markdown,
    Code [Shell [''curl'', ''-v'', ''triton:8000/v2/models/simple-tensorrt-fp32-model'']],
    Code [Shell [''curl'', ''-v'', ''triton:8000/v2/models/simple-tensorrt-fp16-model'']],
    Markdown,
    Code
     [Import ''tritonclient.http'' ''tritonhttpclient'',
      FromImport ''tritonclient.utils'' [''triton_to_np_dtype'']],
    Markdown,
    Code load_labels,
    Code
     [Import ''numpy'' ''np'',
      FromImport ''PIL'' [''Image''],
      Assign [''img_path''] (StrL ''./assets/goldfish.jpg''),
      Assign [''image_pil''] (Call (Attr (Name ''Image'') ''open'') [Name ''img_path'']),
      ExprStmt (Name ''image_pil'')],
    Code
     [FromImport ''tensorflow.keras.preprocessing'' [''image''],
      FromImport ''tensorflow.keras.applications.resnet50'' [''preprocess_input''],
      Import ''numpy'' ''np'',
      Assign [''img'']
        (Call (Attr (Name ''image'') ''load_img'')
           [Name ''img_path'', Kw ''target_size'' (TupleE [IntL 224, IntL 224])]),
      Assign [''image_numpy''] (Call (Attr (Name ''image'') ''img_to_array'') [Name ''img'']),
      Assign [''image_numpy'']
        (Call (Attr (Name ''np'') ''expand_dims'') [Name ''image_numpy'', Kw ''axis'' (IntL 0)]),
      Assign [''image_numpy''] (Call (Name ''preprocess_input'') [Name ''image_numpy'']),
      Assign [''image_numpy'']
        (BinOp ''/''
           (Call (Attr (Name ''np'') ''transpose'')
              [Name ''image_numpy'', ListE [IntL 0, IntL 3, IntL 1, IntL 2]])
           (DecL 255 0)),
      ExprStmt (Call (Name ''print'') [Attr (Name ''image_numpy'') ''shape''])],
    Markdown,
    Code
     [Assign [''VERBOSE''] (BoolL False),
      Assign [''input_name''] (StrL ''actual_input_1''),
      Assign [''output_name''] (StrL ''output1''),
      Assign [''model_name''] (StrL ''simple-tensorrt-fp32-model''),
      Assign [''url''] (StrL ''triton:8000''),
      Assign [''model_version''] (StrL ''1'')],
    Markdown,
    cell_client,
    Markdown,
    Code
     [Assign [''input0'']
        (Call (Attr (Name ''tritonhttpclient'') ''InferInput'')
           [Name ''input_name'', TupleE [IntL 1, IntL 3, IntL 224, IntL 224], StrL ''FP32'']),
      ExprStmt (Call (Attr (Name ''input0'') ''set_data_from_numpy'')
                  [Name ''image_numpy'', Kw ''binary_data'' (BoolL False)]),
      Assign [''output'']
        (Call (Attr (Name ''tritonhttpclient'') ''InferRequestedOutput'')
           [Name ''output_name'', Kw ''binary_data'' (BoolL False)]),
      Assign [''response'']
        (Call (Attr (Name ''triton_client'') ''infer'')
           [Name ''model_name'',
            Kw ''model_version'' (Name ''model_version''),
            Kw ''inputs'' (ListE [Name ''input0'']),
            Kw ''outputs'' (ListE [Name ''output''])]),
      Assign [''logits''] (Call (Attr (Name ''response'') ''as_numpy'') [StrL ''output1'']),
      Assign [''logits'']
        (Call (Attr (Name ''np'') ''asarray'')
           [Name ''logits'', Kw ''dtype'' (Attr (Name ''np'') ''float32'')])],
    Markdown,
    cell_decode,
    Markdown, Markdown,
    cell_fixme_names,
    cell_names ''actual_input_1'' [1, 3, 224, 224] ''output1'' ''simple-tensorrt-fp16-model'',
    Markdown,
    Code
     [Assign [''triton_client''] (Name ''FIXME''),
      Assign [''model_metadata''] (Name ''FIXME''),
      Assign [''model_config''] (Name ''FIXME'')],
    cell_client,
    Markdown,
    cell_fixme_infer,
    cell_infer,
    Markdown,
    cell_decode,
    Markdown,
    cell_shutdown]"

definition notebooks :: "cell list list" where
  "notebooks = [notebook_02, notebook_04, notebook_05]"

section \<open>Reading a run\<close>

subsection \<open>Strings, paths and command lines\<close>

fun split_on :: "char \<Rightarrow> string \<Rightarrow> string list" where
  "split_on c [] = [[]]"
| "split_on c (x # xs) =
     (if x = c then [] # split_on c xs
      else (case split_on c xs of [] \<Rightarrow> [[x]] | w # ws \<Rightarrow> (x # w) # ws))"

text \<open>The components of a path; \<open>a/b/\<close> and \<open>a/b\<close> name the same directory.\<close>

definition components :: "string \<Rightarrow> string list" where
  "components p = filter (\<lambda>s. s \<noteq> []) (split_on CHR ''/'' p)"

definition starts_with :: "string \<Rightarrow> string \<Rightarrow> bool" where
  "starts_with p s = (take (length p) s = p)"

text \<open>The value of \<open>--flag=value\<close> on a command line, \<open>f\<close> being \<open>--flag=\<close>.\<close>

fun flag_value :: "string \<Rightarrow> string list \<Rightarrow> string option" where
  "flag_value f [] = None"
| "flag_value f (w # ws) =
     (if starts_with f w then Some (drop (length f) w) else flag_value f ws)"

fun position :: "'a \<Rightarrow> 'a list \<Rightarrow> nat option" where
  "position x [] = None"
| "position x (y # ys) = (if x = y then Some 0 else map_option Suc (position x ys))"

definition digit_of :: "char \<Rightarrow> nat option" where
  "digit_of c = position c ''0123456789''"

fun digits :: "nat \<Rightarrow> string \<Rightarrow> nat option" where
  "digits acc [] = Some acc"
| "digits acc (c # cs) =
     (case digit_of c of None \<Rightarrow> None | Some d \<Rightarrow> digits (10 * acc + d) cs)"

definition nat_of_string :: "string \<Rightarrow> nat option" where
  "nat_of_string s = (if s = [] then None else digits 0 s)"

fun all_some :: "'a option list \<Rightarrow> 'a list option" where
  "all_some [] = Some []"
| "all_some (None # _) = None"
| "all_some (Some x # xs) = (case all_some xs of None \<Rightarrow> None | Some ys \<Rightarrow> Some (x # ys))"

text \<open>
  The shape a \<open>trtexec\<close> flag gives a tensor: \<open>--maxShapes=actual_input_1:32x3x224x224\<close>
  gives \<open>actual_input_1\<close> the shape \<open>[32, 3, 224, 224]\<close>.
\<close>

definition flag_shape :: "string \<Rightarrow> string list \<Rightarrow> (string \<times> nat list) option" where
  "flag_shape f argv =
     (case flag_value f argv of
        None \<Rightarrow> None
      | Some v \<Rightarrow>
         (case split_on CHR '':'' v of
            [tensor, dims] \<Rightarrow>
              (case all_some (map nat_of_string (split_on CHR ''x'' dims)) of
                 None \<Rightarrow> None
               | Some ds \<Rightarrow> Some (tensor, ds))
          | _ \<Rightarrow> None))"

subsection \<open>Library calls\<close>

fun str_of :: "val \<Rightarrow> string option" where
  "str_of (VStr s) = Some s"
| "str_of _ = None"

fun int_of :: "val \<Rightarrow> int option" where
  "int_of (VInt i) = Some i"
| "int_of _ = None"

fun items_of :: "val \<Rightarrow> val list" where
  "items_of (VList vs) = vs"
| "items_of (VTuple vs) = vs"
| "items_of _ = []"

fun callee_of :: "val \<Rightarrow> val" where
  "callee_of (VCall f _) = f"
| "callee_of _ = VNone"

fun args_of :: "val \<Rightarrow> val list" where
  "args_of (VCall _ args) = args"
| "args_of _ = []"

fun receiver_of :: "val \<Rightarrow> val" where
  "receiver_of (VAttr v _) = v"
| "receiver_of _ = VNone"

fun is_kw :: "val \<Rightarrow> bool" where
  "is_kw (VKw _ _) = True"
| "is_kw _ = False"

fun kw_value :: "string \<Rightarrow> val \<Rightarrow> val option" where
  "kw_value k (VKw k' v) = (if k = k' then Some v else None)"
| "kw_value k _ = None"

text \<open>The positional arguments of a call, and its keyword argument of a given name.\<close>

definition positional :: "val \<Rightarrow> val list" where
  "positional c = filter (\<lambda>a. \<not> is_kw a) (args_of c)"

definition keyword :: "string \<Rightarrow> val \<Rightarrow> val option" where
  "keyword k c = (case List.map_filter (kw_value k) (args_of c) of [] \<Rightarrow> None | v # _ \<Rightarrow> Some v)"

definition positional_str :: "nat \<Rightarrow> val \<Rightarrow> string option" where
  "positional_str i c =
     (if i < length (positional c) then str_of (positional c ! i) else None)"

text \<open>The path of the function a library event calls, \<open>[]\<close> for a shell command.\<close>

fun called :: "event \<Rightarrow> string list" where
  "called (Lib v) = path_of (callee_of v)"
| "called (Sh _) = []"

fun call_of :: "event \<Rightarrow> val" where
  "call_of (Lib v) = v"
| "call_of (Sh _) = VNone"

fun command :: "event \<Rightarrow> string list" where
  "command (Sh argv) = argv"
| "command (Lib _) = []"

subsection \<open>What an event does to the file system\<close>


text \<open>
  The calls that export a model, each with the position of the argument that names the
  artifact: \<open>m.save(path)\<close>, \<open>torch.onnx.export(model, args, path, ...)\<close>,
  \<open>tf.saved_model.save(model, path, ...)\<close>. \<open>trtexec\<close> writes the engine named
  by \<open>--saveEngine\<close>.
\<close>

definition export_calls :: "(string list \<times> nat) list" where
  "export_calls =
    [([''torch'', ''jit'', ''script'', ''()'', ''save''], 0),
     ([''torch'', ''onnx'', ''export''], 2),
     ([''tensorflow'', ''saved_model'', ''save''], 1)]"

definition export_path :: "event \<Rightarrow> string option" where
  "export_path ev =
     (case ev of
        Sh argv \<Rightarrow>
          (if take 1 argv = [''trtexec''] then flag_value ''--saveEngine='' argv else None)
      | Lib c \<Rightarrow>
          (case map_of export_calls (called ev) of
             None \<Rightarrow> None
           | Some i \<Rightarrow> positional_str i c))"

text \<open>\<open>open(path, 'w')\<close> creates or empties the file; \<open>file.write(text)\<close> fills it.\<close>

definition opened_for_write :: "event \<Rightarrow> string option" where
  "opened_for_write ev =
     (if called ev = [''open''] \<and> positional_str 1 (call_of ev) = Some ''w''
      then positional_str 0 (call_of ev) else None)"

definition written_text :: "event \<Rightarrow> (string \<times> string) option" where
  "written_text ev =
     (if called ev = [''open'', ''()'', ''write'']
      then (case (positional_str 0 (receiver_of (callee_of (call_of ev))),
                  positional_str 0 (call_of ev)) of
              (Some path, Some txt) \<Rightarrow> Some (path, txt)
            | _ \<Rightarrow> None)
      else None)"

definition operands :: "string list \<Rightarrow> string list" where
  "operands argv = filter (\<lambda>w. \<not> starts_with ''-'' w) (tl argv)"





definition config_of :: "string \<Rightarrow> string option" where
  "config_of p =
     (case components p of
        [r, m, f] \<Rightarrow> if r = ''models'' \<and> f = ''config.pbtxt'' then Some m else None
      | _ \<Rightarrow> None)"

definition artifact_of :: "string \<Rightarrow> string option" where
  "artifact_of p =
     (case components p of
        [r, m, v, f] \<Rightarrow> if r = ''models'' \<and> v = ''1'' then Some m else None
      | _ \<Rightarrow> None)"

definition model_dir_of :: "string \<Rightarrow> string option" where
  "model_dir_of p =
     (case components p of
        [r, m] \<Rightarrow> if r = ''models'' then Some m else None
      | _ \<Rightarrow> None)"

subsection \<open>The kinds of operation\<close>


definition client_requests :: "string list list" where
  "client_requests =
    [[''tritonclient.http'', ''InferenceServerClient'', ''()'', ''get_model_metadata''],
     [''tritonclient.http'', ''InferenceServerClient'', ''()'', ''get_model_config''],
     [''tritonclient.http'', ''InferenceServerClient'', ''()'', ''infer'']]"






subsection \<open>Inference requests\<close>

text \<open>
  \<open>client.infer(model_name, model_version=v, inputs=[...], outputs=[...])\<close>. An input
  is \<open>InferInput(name, shape, dtype)\<close> with its data set from an array; a requested
  output is \<open>InferRequestedOutput(name, ...)\<close>.
\<close>

definition is_infer :: "event \<Rightarrow> bool" where
  "is_infer ev =
     (called ev = [''tritonclient.http'', ''InferenceServerClient'', ''()'', ''infer''])"

definition infer_model :: "event \<Rightarrow> string option" where
  "infer_model ev = positional_str 0 (call_of ev)"

definition infer_inputs :: "event \<Rightarrow> val list" where
  "infer_inputs ev =
     (case keyword ''inputs'' (call_of ev) of None \<Rightarrow> [] | Some v \<Rightarrow> items_of v)"


text \<open>
  An input with its data set is \<open>InferInput(name, shape, dtype).set_data_from_numpy(data,
  ...)\<close>: the shape is the second argument of the inner call, the data the first of the
  outer one.
\<close>

definition input_shape :: "val \<Rightarrow> int option list" where
  "input_shape i =
     (case positional (receiver_of (callee_of i)) of
        [_, shape, _] \<Rightarrow> map int_of (items_of shape)
      | _ \<Rightarrow> [])"

definition input_data :: "val \<Rightarrow> val option" where
  "input_data i = (case positional i of [] \<Rightarrow> None | d # _ \<Rightarrow> Some d)"

definition infers :: "event list \<Rightarrow> event list" where
  "infers tr = filter is_infer tr"

subsection \<open>Configuration texts\<close>

text \<open>
  The configuration is protobuf text: fields \<open>key: value\<close>, messages in braces, lists in
  brackets. The reader below is the server's side of the format, written out so that what a
  text says can be stated: the text is cut into tokens, the tokens are read into fields, and
  the fields of a model configuration are picked out.
\<close>

datatype token =
    TWord string | TString string | TColon | TComma
  | TOpenBrace | TCloseBrace | TOpenBracket | TCloseBracket

definition flush :: "string \<Rightarrow> token list" where
  "flush acc = (if acc = [] then [] else [TWord (rev acc)])"

definition punctuation :: "char \<Rightarrow> token option" where
  "punctuation c =
     (if c = CHR '':'' then Some TColon else if c = CHR '','' then Some TComma
      else if c = CHR ''{'' then Some TOpenBrace else if c = CHR ''}'' then Some TCloseBrace
      else if c = CHR ''['' then Some TOpenBracket else if c = CHR '']'' then Some TCloseBracket
      else None)"

definition is_space :: "char \<Rightarrow> bool" where
  "is_space c = (c = CHR '' '' \<or> c = CHR 0x0A \<or> c = CHR 0x09 \<or> c = CHR 0x0D)"

text \<open>
  \<open>lex quoted acc cs\<close>: \<open>quoted\<close> says whether a string literal is open,
  \<open>acc\<close> holds the characters of the word or string so far, last first.
\<close>

fun lex :: "bool \<Rightarrow> string \<Rightarrow> string \<Rightarrow> token list" where
  "lex quoted acc [] = flush acc"
| "lex quoted acc (c # cs) =
     (if quoted then
        (if c = CHR 0x22 then TString (rev acc) # lex False [] cs else lex True (c # acc) cs)
      else if c = CHR 0x22 then flush acc @ lex True [] cs
      else if is_space c then flush acc @ lex False [] cs
      else (case punctuation c of
              Some t \<Rightarrow> flush acc @ t # lex False [] cs
            | None \<Rightarrow> lex False (c # acc) cs))"

datatype pb =
    PWord string | PString string | PList "pb list" | PMessage "pb list" | PField string pb

text \<open>
  The first argument bounds the depth of the recursion; the number of tokens is always
  enough.
\<close>

fun fields :: "nat \<Rightarrow> token list \<Rightarrow> (pb list \<times> token list) option"
  and pvalue :: "nat \<Rightarrow> token list \<Rightarrow> (pb \<times> token list) option"
  and elements :: "nat \<Rightarrow> token list \<Rightarrow> (pb list \<times> token list) option"
where
  "fields 0 ts = None"
| "fields (Suc n) [] = Some ([], [])"
| "fields (Suc n) (t # ts) =
     (case t of
        TWord k \<Rightarrow>
          (case pvalue n (if take 1 ts = [TColon] then tl ts else ts) of
             None \<Rightarrow> None
           | Some (v, ts') \<Rightarrow>
              (case fields n ts' of
                 None \<Rightarrow> None
               | Some (fs, ts'') \<Rightarrow> Some (PField k v # fs, ts'')))
      | _ \<Rightarrow> Some ([], t # ts))"
| "pvalue 0 ts = None"
| "pvalue (Suc n) [] = None"
| "pvalue (Suc n) (t # ts) =
     (case t of
        TWord w \<Rightarrow> Some (PWord w, ts)
      | TString s \<Rightarrow> Some (PString s, ts)
      | TOpenBrace \<Rightarrow>
          (case fields n ts of
             None \<Rightarrow> None
           | Some (fs, ts') \<Rightarrow>
              (if take 1 ts' = [TCloseBrace] then Some (PMessage fs, tl ts') else None))
      | TOpenBracket \<Rightarrow>
          (case elements n ts of
             None \<Rightarrow> None
           | Some (vs, ts') \<Rightarrow>
              (if take 1 ts' = [TCloseBracket] then Some (PList vs, tl ts') else None))
      | _ \<Rightarrow> None)"
| "elements 0 ts = None"
| "elements (Suc n) ts =
     (if take 1 ts = [TCloseBracket] then Some ([], ts)
      else (case pvalue n ts of
              None \<Rightarrow> None
            | Some (v, ts') \<Rightarrow>
               (if take 1 ts' = [TComma]
                then (case elements n (tl ts') of
                        None \<Rightarrow> None
                      | Some (vs, ts'') \<Rightarrow> Some (v # vs, ts''))
                else Some ([v], ts'))))"

definition read_fields :: "string \<Rightarrow> pb list option" where
  "read_fields txt =
     (let ts = lex False [] txt in
      case fields (Suc (length ts)) ts of
        Some (fs, []) \<Rightarrow> Some fs
      | _ \<Rightarrow> None)"

record tensor =
  t_name :: string
  t_data_type :: string
  t_dims :: "nat list"

record model_config =
  cfg_name :: string
  cfg_platform :: string
  cfg_max_batch_size :: nat
  cfg_input :: "tensor list"
  cfg_output :: "tensor list"

fun field_value :: "string \<Rightarrow> pb \<Rightarrow> pb option" where
  "field_value k (PField k' v) = (if k = k' then Some v else None)"
| "field_value k _ = None"

text \<open>The value of a field that occurs exactly once.\<close>

definition the_field :: "string \<Rightarrow> pb list \<Rightarrow> pb option" where
  "the_field k fs = (case List.map_filter (field_value k) fs of [v] \<Rightarrow> Some v | _ \<Rightarrow> None)"

fun string_of :: "pb \<Rightarrow> string option" where
  "string_of (PString s) = Some s"
| "string_of _ = None"

fun word_of :: "pb \<Rightarrow> string option" where
  "word_of (PWord w) = Some w"
| "word_of _ = None"

fun number_of :: "pb \<Rightarrow> nat option" where
  "number_of (PWord w) = nat_of_string w"
| "number_of _ = None"

text \<open>
  A repeated field holds its entries in a list, \<open>input [ {...} ]\<close>, or one by one,
  \<open>output {...}\<close>.
\<close>

fun entries :: "pb \<Rightarrow> pb list" where
  "entries (PList vs) = vs"
| "entries v = [v]"

fun message_fields :: "pb \<Rightarrow> pb list option" where
  "message_fields (PMessage fs) = Some fs"
| "message_fields _ = None"

definition read_tensor :: "pb \<Rightarrow> tensor option" where
  "read_tensor m =
     (case message_fields m of
        None \<Rightarrow> None
      | Some fs \<Rightarrow>
         (case (Option.bind (the_field ''name'' fs) string_of,
                Option.bind (the_field ''data_type'' fs) word_of,
                Option.bind (the_field ''dims'' fs) (\<lambda>d. all_some (map number_of (entries d)))) of
            (Some n, Some t, Some ds) \<Rightarrow> Some \<lparr>t_name = n, t_data_type = t, t_dims = ds\<rparr>
          | _ \<Rightarrow> None))"

definition read_tensors :: "string \<Rightarrow> pb list \<Rightarrow> tensor list option" where
  "read_tensors k fs =
     all_some (map read_tensor (concat (map entries (List.map_filter (field_value k) fs))))"

definition read_config :: "string \<Rightarrow> model_config option" where
  "read_config txt =
     (case read_fields txt of
        None \<Rightarrow> None
      | Some fs \<Rightarrow>
         (case (Option.bind (the_field ''name'' fs) string_of,
                Option.bind (the_field ''platform'' fs) string_of,
                Option.bind (the_field ''max_batch_size'' fs) number_of,
                read_tensors ''input'' fs,
                read_tensors ''output'' fs) of
            (Some n, Some p, Some b, Some i, Some out) \<Rightarrow>
              Some \<lparr>cfg_name = n, cfg_platform = p, cfg_max_batch_size = b,
                    cfg_input = i, cfg_output = out\<rparr>
          | _ \<Rightarrow> None))"

text \<open>The texts a run wrote, each with the path of its file.\<close>

definition texts_written :: "event list \<Rightarrow> (string \<times> string) list" where
  "texts_written tr = List.map_filter written_text tr"

section \<open>Failing calls\<close>

text \<open>
  Whether the world makes an event raise: only a library call can. \<open>replay w tr T\<close>
  goes through the events \<open>T\<close> that a run without failures performs after \<open>tr\<close>,
  and stops after the first one the world \<open>w\<close> makes raise.
\<close>

fun raises :: "world \<Rightarrow> event list \<Rightarrow> event \<Rightarrow> exn option" where
  "raises w tr (Sh _) = None"
| "raises w tr (Lib v) = w tr (Lib v)"

fun replay :: "world \<Rightarrow> event list \<Rightarrow> event list \<Rightarrow> exn option \<times> event list" where
  "replay w tr [] = (None, tr)"
| "replay w tr (ev # evs) =
     (case raises w tr ev of
        Some x \<Rightarrow> (Some x, tr @ [ev])
      | None \<Rightarrow> replay w (tr @ [ev]) evs)"

text \<open>
  \<open>follows w tr q r\<close>: the outcome \<open>r\<close> in the world \<open>w\<close> is what replaying the
  failure-free outcome \<open>q\<close> gives: \<open>q\<close> itself when no call raises, and otherwise the
  exception of the first call that raises, with the events up to that call.
\<close>

definition follows ::
  "world \<Rightarrow> event list \<Rightarrow> exn option \<times> state \<Rightarrow> exn option \<times> state \<Rightarrow> bool" where
  "follows w tr q r =
     (case replay w tr (drop (length tr) (snd (snd q))) of
        (None, _) \<Rightarrow> r = q
      | (Some e, tr') \<Rightarrow> fst r = Some e \<and> snd (snd r) = tr')"

text \<open>
  A step that only adds events, and a step that in the world \<open>w\<close> follows what it
  does when nothing fails, from any state.
\<close>

definition growing :: "(state \<Rightarrow> 'a \<times> state) \<Rightarrow> bool" where
  "growing k = (\<forall>st. prefix (snd st) (snd (snd (k st))))"

definition tracks :: "world \<Rightarrow> (state \<Rightarrow> result) \<Rightarrow> (state \<Rightarrow> result) \<Rightarrow> bool" where
  "tracks w kq kw = (\<forall>st. follows w (snd st) (kq st) (kw st))"

section \<open>The text of the notebooks\<close>
























text \<open>
  No \<open>try\<close> anywhere in a statement, in a cell. This is what the replay of a run needs.
\<close>

fun no_handler :: "stmt \<Rightarrow> bool" where
  "no_handler (Try _ _) = False"
| "no_handler (With _ _ body) = list_all no_handler body"
| "no_handler (For _ _ body) = list_all no_handler body"
| "no_handler (IfElse _ a b) = (list_all no_handler a \<and> list_all no_handler b)"
| "no_handler _ = True"

fun cell_ok :: "cell \<Rightarrow> bool" where
  "cell_ok Markdown = True"
| "cell_ok (Code ss) = list_all no_handler ss"

section \<open>What the properties speak of\<close>

text \<open>The value a name has when a run ends.\<close>

definition final_value :: "world \<Rightarrow> cell list \<Rightarrow> string \<Rightarrow> val option" where
  "final_value w nb x = map_of (fst (snd (run_each w nb))) x"





subsection \<open>Waiting for the server\<close>

definition is_sleep :: "event \<Rightarrow> bool" where
  "is_sleep ev = (take 1 (command ev) = [''sleep''])"

definition is_curl :: "event \<Rightarrow> bool" where
  "is_curl ev = (take 1 (command ev) = [''curl''])"

definition contacts_server :: "event \<Rightarrow> bool" where
  "contacts_server ev = (is_curl ev \<or> called ev \<in> set client_requests)"

definition writes_config :: "event \<Rightarrow> bool" where
  "writes_config ev = (opened_for_write ev \<noteq> None \<or> written_text ev \<noteq> None)"

definition before_sleep :: "event list \<Rightarrow> event list" where
  "before_sleep tr = takeWhile (\<lambda>ev. \<not> is_sleep ev) tr"

definition after_sleep :: "event list \<Rightarrow> event list" where
  "after_sleep tr = drop 1 (dropWhile (\<lambda>ev. \<not> is_sleep ev) tr)"

subsection \<open>The model repository\<close>

text \<open>
  The models a run creates a directory for, the artifacts it exports for a model, the names
  inside the configurations it writes for a model, and the model names of its inference
  requests.
\<close>

definition made_dirs :: "event list \<Rightarrow> string list" where
  "made_dirs tr =
     concat (map (\<lambda>ev. if take 1 (command ev) = [''mkdir''] then operands (command ev) else [])
                 tr)"

definition models_created :: "event list \<Rightarrow> string list" where
  "models_created tr = remdups (List.map_filter model_dir_of (made_dirs tr))"

definition exports :: "event list \<Rightarrow> string list" where
  "exports tr = List.map_filter export_path tr"

definition artifacts :: "event list \<Rightarrow> string \<Rightarrow> string list" where
  "artifacts tr m = filter (\<lambda>p. artifact_of p = Some m) (exports tr)"

definition config_names :: "event list \<Rightarrow> string \<Rightarrow> string option list" where
  "config_names tr m =
     map (\<lambda>pt. map_option cfg_name (read_config (snd pt)))
         (filter (\<lambda>pt. config_of (fst pt) = Some m) (texts_written tr))"

definition request_models :: "event list \<Rightarrow> string option list" where
  "request_models tr = map infer_model (infers tr)"

subsection \<open>Decoding a response\<close>

text \<open>
  The label list is what \<open>json.load\<close> reads from the label file; the logits of a
  response are its output tensor of a given name, as a \<open>float32\<close> array.
\<close>

definition labels_value :: val where
  "labels_value =
     VCall (VAttr (VModule ''json'') ''load'')
       [VCall (VBuiltin ''open'') [VStr ''./imagenet-simple-labels.json'']]"







subsection \<open>Preprocessing in the PyTorch notebook\<close>

definition invoke :: "val \<Rightarrow> string \<Rightarrow> val list \<Rightarrow> val" where
  "invoke v m args = VCall (VAttr v m) args"

definition transforms :: "string \<Rightarrow> val" where
  "transforms c = VAttr (VAttr (VModule ''torchvision'') ''transforms'') c"

fun dec_of :: "val \<Rightarrow> real option" where
  "dec_of (VDec m k) = Some (real_of_int m / 10 ^ k)"
| "dec_of (VInt i) = Some (real_of_int i)"
| "dec_of _ = None"

text \<open>
  \<open>transforms.Normalize(mean=m, std=s)\<close> maps the entry \<open>x\<close> of channel \<open>c\<close> to
  \<open>(x - m[c]) / s[c]\<close>.
\<close>

definition normalized :: "val \<Rightarrow> nat \<Rightarrow> real \<Rightarrow> real option" where
  "normalized n c x =
     (case (keyword ''mean'' n, keyword ''std'' n) of
        (Some m, Some s) \<Rightarrow>
          (if c < length (items_of m) \<and> c < length (items_of s)
           then (case (dec_of (items_of m ! c), dec_of (items_of s ! c)) of
                   (Some a, Some b) \<Rightarrow> Some ((x - a) / b)
                 | _ \<Rightarrow> None)
           else None)
      | _ \<Rightarrow> None)"

definition channel_means :: "val" where
  "channel_means = VList [VDec 485 3, VDec 456 3, VDec 406 3]"

text \<open>The image tensor: the opened image through the pipeline, batched, on the GPU.\<close>

definition normalize_value :: val where
  "normalize_value =
     VCall (transforms ''Normalize'') [VKw ''mean'' channel_means, VKw ''std'' channel_means]"

definition transform_value :: val where
  "transform_value =
     VCall (transforms ''Compose'')
       [VList [VCall (transforms ''Resize'') [VTuple [VInt 256, VInt 256]],
               VCall (transforms ''CenterCrop'') [VInt 224],
               VCall (transforms ''ToTensor'') [],
               normalize_value]]"

definition image_tensor_value :: val where
  "image_tensor_value =
     invoke (invoke (VCall transform_value
                       [VCall (VAttr (VAttr (VModule ''PIL'') ''Image'') ''open'')
                          [VStr ''./assets/goldfish.jpg'']])
               ''unsqueeze'' [VInt 0])
       ''cuda'' []"

text \<open>
  The local check: the model applied to the image tensor, its three largest logits, and
  the line the loop prints for position \<open>i\<close>.
\<close>

definition local_topk :: val where
  "local_topk =
     VCall (VAttr (VModule ''torch'') ''topk'')
       [VCall (invoke (invoke (VCall (VClass ''Model'') []) ''eval'' []) ''cuda'' [])
          [image_tensor_value],
        VInt 3]"

definition local_list :: "int \<Rightarrow> val" where
  "local_list k = VIndex (invoke (invoke (VIndex local_topk (VInt k)) ''detach'' []) ''tolist'' [])
                    (VInt 0)"

definition local_print :: "int \<Rightarrow> event" where
  "local_print i =
     Lib (VCall (VBuiltin ''print'')
       [VIndex (local_list 0) (VInt i), VIndex (local_list 1) (VInt i),
        VIndex labels_value (VIndex (local_list 1) (VInt i))])"

definition is_local_print :: "event \<Rightarrow> bool" where
  "is_local_print ev = (called ev = [''print''] \<and> length (args_of (call_of ev)) = 3)"

subsection \<open>Batch sizes in the TensorRT notebook\<close>

definition trtexec_commands :: "event list \<Rightarrow> string list list" where
  "trtexec_commands tr = filter (\<lambda>argv. take 1 argv = [''trtexec'']) (map command tr)"

text \<open>The batch dimension is the first one.\<close>

definition batch_of :: "(string \<times> nat list) option \<Rightarrow> (string \<times> nat) option" where
  "batch_of sh =
     (case sh of
        Some (tensor, b # _) \<Rightarrow> Some (tensor, b)
      | _ \<Rightarrow> None)"

definition request_batches :: "event list \<Rightarrow> int option list" where
  "request_batches tr =
     concat (map (\<lambda>ev. map (\<lambda>i. case input_shape i of b # _ \<Rightarrow> b | [] \<Rightarrow> None) (infer_inputs ev))
                 (infers tr))"

definition config_batches :: "event list \<Rightarrow> nat option list" where
  "config_batches tr =
     map (\<lambda>pt. map_option cfg_max_batch_size (read_config (snd pt))) (texts_written tr)"

subsection \<open>The properties of a run\<close>

text \<open>
  The layout of the model repository is consistent: for the models a run creates
  directories for, in the order it creates them, the artifacts it exports lie in
  \<open>models/m/1/\<close>, the configurations it writes are the files
  \<open>models/m/config.pbtxt\<close>, the name inside each configuration is \<open>m\<close>, and the
  inference requests name \<open>m\<close>.
\<close>

definition consistent_layout :: "event list \<Rightarrow> bool" where
  "consistent_layout tr =
     (let ms = map Some (models_created tr) in
      ms \<noteq> []
      \<and> map artifact_of (exports tr) = ms
      \<and> map (\<lambda>pt. config_of (fst pt)) (texts_written tr) = ms
      \<and> map (\<lambda>pt. map_option cfg_name (read_config (snd pt))) (texts_written tr) = ms
      \<and> request_models tr = ms)"

text \<open>
  A configuration describes the model's tensors: a name, a platform, a largest batch size of
  32, and exactly one input and one output tensor, each with a name and the data type
  \<open>TYPE_FP32\<close>, the input of three dimensions and the output of the one dimension
  1000. A written text does so for the model in whose directory it is written.
\<close>

definition tensor_described :: "tensor \<Rightarrow> bool" where
  "tensor_described t = (t_name t \<noteq> [] \<and> t_data_type t = ''TYPE_FP32'')"

definition described :: "model_config \<Rightarrow> bool" where
  "described c =
     (cfg_name c \<noteq> [] \<and> cfg_platform c \<noteq> [] \<and> cfg_max_batch_size c = 32
      \<and> (case (cfg_input c, cfg_output c) of
            ([i], [out]) \<Rightarrow>
              tensor_described i \<and> length (t_dims i) = 3
              \<and> tensor_described out \<and> t_dims out = [1000]
          | _ \<Rightarrow> False))"

definition describes :: "string \<times> string \<Rightarrow> bool" where
  "describes pt =
     (case read_config (snd pt) of
        None \<Rightarrow> False
      | Some c \<Rightarrow> described c \<and> config_of (fst pt) = Some (cfg_name c))"

text \<open>
  A run waits once: it sleeps exactly once, for 45 seconds; before, it writes
  configurations and does not contact the server; after, it writes no configuration, and
  the first thing it does is contact the server; and it asks no URL twice.
\<close>

definition waits_once :: "event list \<Rightarrow> bool" where
  "waits_once tr =
     (filter is_sleep tr = [Sh [''sleep'', ''45'']]
      \<and> filter writes_config (before_sleep tr) \<noteq> []
      \<and> list_all (\<lambda>ev. \<not> contacts_server ev) (before_sleep tr)
      \<and> list_all (\<lambda>ev. \<not> writes_config ev) (after_sleep tr)
      \<and> take 1 (after_sleep tr) = filter contacts_server (take 1 (after_sleep tr))
      \<and> filter contacts_server (after_sleep tr) \<noteq> []
      \<and> distinct (filter is_curl tr))"





text \<open>
  The shapes a \<open>trtexec\<close> command allows its input tensor: the smallest, the one to
  optimize for, the largest. The command admits a batch size that lies between the batch
  dimensions of the smallest and the largest.
\<close>

definition shape_bounds :: "string list \<Rightarrow> (string \<times> nat list) option list" where
  "shape_bounds argv =
     map (\<lambda>f. flag_shape f argv) [''--minShapes='', ''--optShapes='', ''--maxShapes='']"

definition admits :: "string list \<Rightarrow> int option \<Rightarrow> bool" where
  "admits argv b =
     (case (batch_of (flag_shape ''--minShapes='' argv),
            batch_of (flag_shape ''--maxShapes='' argv), b) of
        (Some (_, lo), Some (_, hi), Some n) \<Rightarrow> int lo \<le> n \<and> n \<le> int hi
      | _ \<Rightarrow> False)"

section \<open>Runs in a world where calls may fail\<close>

lemma replay_append:
  "replay w tr (T1 @ T2) =
     (case replay w tr T1 of (None, tr') \<Rightarrow> replay w tr' T2 | (Some e, tr') \<Rightarrow> (Some e, tr'))"
  by (induction T1 arbitrary: tr) (auto split: option.splits)

lemma replay_None: "replay w tr T = (None, tr') \<Longrightarrow> tr' = tr @ T"
  by (induction T arbitrary: tr) (force split: option.splits)+

lemma replay_prefix: "replay w tr T = (a, tr') \<Longrightarrow> prefix tr' (tr @ T)"
proof (induction T arbitrary: tr)
  case Nil
  then show ?case by simp
next
  case (Cons ev T)
  show ?case
  proof (cases "raises w tr ev")
    case None
    with Cons.prems have "replay w (tr @ [ev]) T = (a, tr')" by simp
    from Cons.IH[OF this] show ?thesis by simp
  next
    case (Some x)
    with Cons.prems show ?thesis by auto
  qed
qed

subsection \<open>A run only adds events\<close>

lemma growingD: "growing k \<Longrightarrow> prefix (snd st) (snd (snd (k st)))"
  unfolding growing_def by blast

lemma growingI: "(\<And>st. prefix (snd st) (snd (snd (k st)))) \<Longrightarrow> growing k"
  unfolding growing_def by blast

lemma prefix_andthen:
  assumes "prefix tr (snd (snd r))" and "growing k"
  shows "prefix tr (snd (snd (andthen r k)))"
proof -
  obtain a st1 where r: "r = (a, st1)" by (cases r)
  show ?thesis
  proof (cases a)
    case None
    with r assms(1) growingD[OF assms(2), of st1] show ?thesis
      by (auto intro: prefix_order.trans)
  next
    case (Some x)
    with r assms(1) show ?thesis by simp
  qed
qed

lemma growing_perform: "growing (perform w v)"
proof (rule growingI)
  fix st :: state
  obtain env tr where st: "st = (env, tr)" by (cases st)
  show "prefix (snd st) (snd (snd (perform w v st)))"
    by (cases "effectful v") (simp_all add: perform_def st)
qed

lemma growing_bound: "growing (bound xs v)"
  by (rule growingI) (auto simp: split_paired_all)

lemma growing_mutated: "growing (mutated e v)"
  by (rule growingI) (auto simp: split_paired_all)

lemma growing_assign: "growing (assign w xs v)"
  by (rule growingI) (simp add: assign_def prefix_andthen growingD[OF growing_perform] growing_bound)

lemma growing_evaluate: "growing (evaluate w e v)"
  by (rule growingI)
     (simp add: evaluate_def prefix_andthen growingD[OF growing_perform] growing_mutated)

lemma growing_inside: "growing k \<Longrightarrow> growing (inside x v k)"
proof (rule growingI)
  fix st :: state
  assume k: "growing k"
  obtain env tr where st: "st = (env, tr)" by (cases st)
  from growingD[OF k, of "((x, v) # env, tr)"] show "prefix (snd st) (snd (snd (inside x v k st)))"
    by (simp add: st)
qed

lemma growing_enter: "growing k \<Longrightarrow> growing (enter w x k v)"
  by (rule growingI)
     (simp add: enter_def prefix_andthen growingD[OF growing_perform] growing_inside)

lemma growing_loop: "(\<And>vs. growing (k vs)) \<Longrightarrow> growing (loop k v)"
  by (rule growingI) (cases "iter_values v"; simp add: loop_def growingD)

lemma growing_branch: "growing ka \<Longrightarrow> growing kb \<Longrightarrow> growing (branch ka kb v)"
proof (rule growingI)
  fix st :: state
  assume "growing ka" "growing kb"
  then show "prefix (snd st) (snd (snd (branch ka kb v st)))"
    by (cases "(ka, kb, truth v, st)" rule: branch_on.cases)
       (auto simp: branch_def growingD)
qed

lemma growing_with_value: "(\<And>v. growing (k v)) \<Longrightarrow> growing (with_value r k)"
  by (rule growingI) (cases r; simp add: growingD)

lemma prefix_with_value:
  assumes "\<And>v. growing (k v)"
  shows "prefix tr (snd (snd (with_value r k (env, tr))))"
  using growingD[OF assms, of "(env, tr)"] by (cases r) simp_all

lemma growing_define_class: "growing (define_class c r)"
  by (rule growingI) (cases r; auto simp: split_paired_all)

lemma prefix_recover:
  assumes "prefix tr (snd (snd r))" and "growing k"
  shows "prefix tr (snd (snd (recover r k)))"
proof -
  obtain a st1 where r: "r = (a, st1)" by (cases r)
  show ?thesis
  proof (cases a)
    case None
    with r assms(1) show ?thesis by simp
  next
    case (Some x)
    with r assms(1) growingD[OF assms(2), of st1] show ?thesis
      by (auto intro: prefix_order.trans)
  qed
qed

lemma grows:
  "prefix (snd st) (snd (snd (exec w s st)))"
  "prefix (snd st) (snd (snd (block w ss st)))"
  "prefix (snd st) (snd (snd (iterate w x body vs st)))"
proof (induction w s st and w ss st and w x body vs st rule: exec_block_iterate.induct)
  case (4 w c bases env tr)
  show ?case using growingD[OF growing_define_class, of "(env, tr)" c "evals env bases"] by simp
next
  case (5 w xs e env tr)
  show ?case by (simp add: prefix_with_value growing_assign)
next
  case (6 w e env tr)
  show ?case by (simp add: prefix_with_value growing_evaluate)
next
  case (7 w e x body env tr)
  then have "growing (block w body)" by (simp add: growingI)
  then show ?case by (simp add: prefix_with_value growing_enter)
next
  case (8 w x e body env tr)
  then have "growing (iterate w x body vs)" for vs by (simp add: growingI)
  then show ?case by (simp add: prefix_with_value growing_loop)
next
  case (9 w c a b env tr)
  then have "growing (block w a)" "growing (block w b)" by (simp_all add: growingI)
  then show ?case by (simp add: prefix_with_value growing_branch)
next
  case (10 w body handler st)
  then have "growing (block w handler)" by (simp add: growingI)
  with 10(1) show ?case by (simp add: prefix_recover)
next
  case (12 w s ss st)
  then have "growing (block w ss)" by (simp add: growingI)
  with 12(1) show ?case by (simp add: prefix_andthen)
next
  case (14 w x body v vs env tr)
  then have "growing (iterate w x body vs)" by (simp add: growingI)
  with 14(1) show ?case by (simp add: prefix_andthen)
qed simp_all

lemma growing_exec: "growing (exec w s)" "growing (block w ss)" "growing (iterate w x body vs)"
  by (simp_all add: growingI grows)

subsection \<open>The outcome in any world is the replay of the failure-free run\<close>

lemma follows_same: "snd (snd q) = tr \<Longrightarrow> follows w tr q q"
  by (simp add: follows_def)

lemma follows_stop: "follows w tr (Some x, st1) r \<Longrightarrow> fst r \<noteq> None"
  by (auto simp: follows_def split: prod.splits option.splits)

lemma follows_chain:
  assumes f1: "follows w tr (None, st1) r1"
    and p1: "prefix tr (snd st1)"
    and p2: "prefix (snd st1) (snd (snd q2))"
    and f2: "r1 = (None, st1) \<Longrightarrow> follows w (snd st1) q2 r2"
  shows "follows w tr q2 (if fst r1 = None then r2 else r1)"
proof -
  from p1 obtain T1 where T1: "snd st1 = tr @ T1" by (auto simp: prefix_def)
  from p2 obtain T2 where T2: "snd (snd q2) = snd st1 @ T2" by (auto simp: prefix_def)
  have d: "drop (length tr) (snd (snd q2)) = T1 @ T2" by (simp add: T1 T2)
  obtain a tr' where rp: "replay w tr T1 = (a, tr')" by (cases "replay w tr T1")
  show ?thesis
  proof (cases a)
    case None
    with rp have tr': "tr' = snd st1" using replay_None T1 by metis
    from f1 rp None T1 have r1: "r1 = (None, st1)" by (simp add: follows_def)
    from f2[OF r1] have "follows w (snd st1) q2 r2" .
    then show ?thesis
      unfolding follows_def d replay_append rp using None tr' r1 T2 by simp
  next
    case (Some e)
    from f1 rp Some T1 have "fst r1 = Some e" "snd (snd r1) = tr'" by (simp_all add: follows_def)
    then show ?thesis
      unfolding follows_def d replay_append rp using Some by simp
  qed
qed

lemma tracksD: "tracks w kq kw \<Longrightarrow> follows w (snd st) (kq st) (kw st)"
  unfolding tracks_def by blast

lemma tracksI: "(\<And>st. follows w (snd st) (kq st) (kw st)) \<Longrightarrow> tracks w kq kw"
  unfolding tracks_def by blast

lemma follows_andthen:
  assumes f1: "follows w tr q1 r1"
    and g1: "prefix tr (snd (snd q1))"
    and g2: "growing kq"
    and f2: "tracks w kq kw"
  shows "follows w tr (andthen q1 kq) (andthen r1 kw)"
proof -
  obtain a st1 where q1: "q1 = (a, st1)" by (cases q1)
  have r1: "andthen r1 kw = (if fst r1 = None then kw (snd r1) else r1)"
    by (cases r1) (auto split: option.splits)
  show ?thesis
  proof (cases a)
    case None
    have "follows w tr (kq st1) (if fst r1 = None then kw (snd r1) else r1)"
    proof (rule follows_chain)
      show "follows w tr (None, st1) r1" using f1 q1 None by simp
      show "prefix tr (snd st1)" using g1 q1 by simp
      show "prefix (snd st1) (snd (snd (kq st1)))" by (rule growingD[OF g2])
      show "r1 = (None, st1) \<Longrightarrow> follows w (snd st1) (kq st1) (kw (snd r1))"
        using tracksD[OF f2, of st1] by simp
    qed
    then show ?thesis unfolding r1 using q1 None by simp
  next
    case (Some x)
    with f1 q1 have "fst r1 \<noteq> None" using follows_stop by blast
    then show ?thesis unfolding r1 using f1 q1 Some by auto
  qed
qed

lemma tracks_perform: "tracks w (perform quiet v) (perform w v)"
proof (rule tracksI)
  fix st :: state
  obtain env tr where st: "st = (env, tr)" by (cases st)
  show "follows w (snd st) (perform quiet v st) (perform w v st)"
    by (cases "effectful v")
       (simp_all add: perform_def st follows_def quiet.simps split: option.splits)
qed

lemma tracks_silent: "(\<And>st. snd (snd (k st)) = snd st) \<Longrightarrow> tracks w k k"
  by (rule tracksI) (simp add: follows_same)

lemma tracks_bound: "tracks w (bound xs v) (bound xs v)"
  by (rule tracks_silent) (auto simp: split_paired_all)

lemma tracks_mutated: "tracks w (mutated e v) (mutated e v)"
  by (rule tracks_silent) (auto simp: split_paired_all)

lemma tracks_assign: "tracks w (assign quiet xs v) (assign w xs v)"
  unfolding assign_def
  by (rule tracksI, rule follows_andthen)
     (simp_all add: tracksD[OF tracks_perform] growingD[OF growing_perform]
        growing_bound tracks_bound)

lemma tracks_evaluate: "tracks w (evaluate quiet e v) (evaluate w e v)"
  unfolding evaluate_def
  by (rule tracksI, rule follows_andthen)
     (simp_all add: tracksD[OF tracks_perform] growingD[OF growing_perform]
        growing_mutated tracks_mutated)

lemma tracks_inside: "tracks w kq kw \<Longrightarrow> tracks w (inside x v kq) (inside x v kw)"
proof (rule tracksI)
  fix st :: state
  assume t: "tracks w kq kw"
  obtain env tr where st: "st = (env, tr)" by (cases st)
  from tracksD[OF t, of "((x, v) # env, tr)"]
  show "follows w (snd st) (inside x v kq st) (inside x v kw st)" by (simp add: st)
qed

lemma tracks_enter:
  "growing kq \<Longrightarrow> tracks w kq kw \<Longrightarrow> tracks w (enter quiet x kq v) (enter w x kw v)"
  unfolding enter_def
  by (rule tracksI, rule follows_andthen)
     (simp_all add: tracksD[OF tracks_perform] growingD[OF growing_perform]
        growing_inside tracks_inside)

lemma tracks_loop:
  "(\<And>vs. tracks w (kq vs) (kw vs)) \<Longrightarrow> tracks w (loop kq v) (loop kw v)"
  by (rule tracksI) (cases "iter_values v"; simp add: loop_def tracksD follows_same)

lemma tracks_branch:
  assumes "tracks w ka ka'" and "tracks w kb kb'"
  shows "tracks w (branch ka kb v) (branch ka' kb' v)"
proof (rule tracksI)
  fix st :: state
  show "follows w (snd st) (branch ka kb v st) (branch ka' kb' v st)"
    using assms
    by (cases "(ka, kb, truth v, st)" rule: branch_on.cases)
       (auto simp: branch_def tracksD follows_same)
qed

lemma follows_with_value:
  assumes "\<And>v. tracks w (kq v) (kw v)"
  shows "follows w tr (with_value r kq (env, tr)) (with_value r kw (env, tr))"
proof (cases r)
  case (Inl x)
  then show ?thesis by (simp add: follows_same)
next
  case (Inr v)
  from tracksD[OF assms[of v], where st = "(env, tr)"] Inr show ?thesis by simp
qed

lemma follows_exec:
  "no_handler s \<Longrightarrow> follows w (snd st) (exec quiet s st) (exec w s st)"
  "list_all no_handler ss \<Longrightarrow> follows w (snd st) (block quiet ss st) (block w ss st)"
  "list_all no_handler body \<Longrightarrow>
     follows w (snd st) (iterate quiet x body vs st) (iterate w x body vs st)"
proof (induction w s st and w ss st and w x body vs st rule: exec_block_iterate.induct)
  case (1 w argv env tr)
  show ?case by (simp add: follows_def)
next
  case (2 w m x env tr)
  show ?case by (simp add: follows_def)
next
  case (3 w m xs env tr)
  show ?case by (simp add: follows_def)
next
  case (4 w c bases env tr)
  show ?case
    using growingD[OF growing_define_class, of "(env, tr)" c "evals env bases"]
    by (cases "evals env bases") (simp_all add: follows_def)
next
  case (5 w xs e env tr)
  show ?case by (simp add: follows_with_value tracks_assign)
next
  case (6 w e env tr)
  show ?case by (simp add: follows_with_value tracks_evaluate)
next
  case (7 w e x body env tr)
  then have "tracks w (block quiet body) (block w body)" by (simp add: tracksI)
  then show ?case by (simp add: follows_with_value tracks_enter growing_exec)
next
  case (8 w x e body env tr)
  then have "tracks w (iterate quiet x body vs) (iterate w x body vs)" for vs
    by (simp add: tracksI)
  then show ?case by (simp add: follows_with_value tracks_loop)
next
  case (9 w c a b env tr)
  then have "tracks w (block quiet a) (block w a)" "tracks w (block quiet b) (block w b)"
    by (simp_all add: tracksI)
  then show ?case by (simp add: follows_with_value tracks_branch)
next
  case (10 w body handler st)
  then show ?case by simp
next
  case (11 w st)
  show ?case by (simp add: follows_def)
next
  case (12 w s ss st)
  then have "tracks w (block quiet ss) (block w ss)" by (simp add: tracksI)
  with 12 show ?case by (simp add: follows_andthen grows growing_exec)
next
  case (13 w x body st)
  show ?case by (simp add: follows_def)
next
  case (14 w x body v vs env tr)
  then have "tracks w (iterate quiet x body vs) (iterate w x body vs)" by (simp add: tracksI)
  moreover from 14 have "follows w tr (block quiet body ((x, v) # env, tr)) (block w body ((x, v) # env, tr))"
    by simp
  moreover have "prefix tr (snd (snd (block quiet body ((x, v) # env, tr))))"
    using grows(2)[of "((x, v) # env, tr)" quiet body] by simp
  ultimately show ?case by (simp add: follows_andthen growing_exec)
qed

lemma grows_cells: "prefix (snd st) (snd (snd (run_cells w cs st)))"
proof (induction w cs st rule: run_cells.induct)
  case (3 w ss cs st)
  then have "growing (run_cells w cs)" by (simp add: growingI)
  then show ?case by (simp add: prefix_andthen grows)
qed simp_all

lemma follows_cells:
  "list_all cell_ok cs \<Longrightarrow> follows w (snd st) (run_cells quiet cs st) (run_cells w cs st)"
proof (induction w cs st rule: run_cells.induct)
  case (1 w st)
  show ?case by (simp add: follows_def)
next
  case (2 w cs st)
  then show ?case by simp
next
  case (3 w ss cs st)
  then have "tracks w (run_cells quiet cs) (run_cells w cs)" by (simp add: tracksI)
  moreover have "growing (run_cells quiet cs)" by (simp add: growingI grows_cells)
  ultimately show ?case using 3(2) by (simp add: follows_andthen follows_exec grows)
qed

lemma events_snd: "events r = snd (snd r)"
  by (cases r) (auto simp: split_paired_all)

lemma follows_run_all:
  "list_all cell_ok nb \<Longrightarrow> follows w [] (run_all quiet nb) (run_all w nb)"
  using follows_cells[of nb w kernel] by (simp add: run_all_def kernel_def)

lemma run_all_prefix:
  assumes "list_all cell_ok nb"
  shows "prefix (trace_all w nb) (trace_all quiet nb)"
proof -
  obtain a tr' where rp: "replay w [] (trace_all quiet nb) = (a, tr')"
    by (cases "replay w [] (trace_all quiet nb)")
  from replay_prefix[OF rp] have p: "prefix tr' (trace_all quiet nb)" by simp
  from follows_run_all[OF assms, of w] rp show ?thesis
    using p by (cases a) (auto simp: follows_def trace_all_def events_snd)
qed

lemma run_all_quiet_world:
  assumes "list_all cell_ok nb" and "fst (replay w [] (trace_all quiet nb)) = None"
  shows "run_all w nb = run_all quiet nb"
  using follows_run_all[OF assms(1), of w] assms(2)
  by (auto simp: follows_def trace_all_def events_snd split: prod.splits option.splits)



subsection \<open>Run All and running every cell\<close>





lemma prefix_filter_length: "prefix xs ys \<Longrightarrow> length (filter P xs) \<le> length (filter P ys)"
  by (auto simp: prefix_def)


section \<open>The notebooks, one by one\<close>


lemma ok_02: "list_all cell_ok notebook_02" by code_simp
lemma ok_04: "list_all cell_ok notebook_04" by code_simp
lemma ok_05: "list_all cell_ok notebook_05" by code_simp





section \<open>The sequence of operations\<close>









section \<open>Control flow\<close>







section \<open>Error handling\<close>




section \<open>The model repository\<close>

lemma layout_02: "consistent_layout (trace_each quiet notebook_02)" by code_simp
lemma layout_04: "consistent_layout (trace_each quiet notebook_04)" by code_simp
lemma layout_05: "consistent_layout (trace_each quiet notebook_05)" by code_simp

lemma models_all:
  "models_created (trace_each quiet notebook_02) = [''simple-pytorch-model'', ''simple-onnx-model'']"
  "models_created (trace_each quiet notebook_04) = [''simple-tensorflow-model'']"
  "models_created (trace_each quiet notebook_05) =
     [''simple-tensorrt-fp32-model'', ''simple-tensorrt-fp16-model'']"
  by code_simp+

text \<open>
  C3. For every model a notebook deploys, the layout follows the repository convention
  and the naming is consistent from end to end. Every cell being run, the notebooks create
  directories for five models; for each of them, in this order, the artifact is exported
  into \<open>models/m/1/\<close>, the configuration is written to \<open>models/m/config.pbtxt\<close>,
  the name field of that configuration is \<open>m\<close>, and the inference request names
  \<open>m\<close>. (The requests to the second model of notebooks 02 and 05 are made by the
  solution cells of the exercise.)
\<close>

theorem C3_layout_and_names:
  "list_all (\<lambda>nb. consistent_layout (trace_each quiet nb)) notebooks
   \<and> concat (map (\<lambda>nb. models_created (trace_each quiet nb)) notebooks) =
       [''simple-pytorch-model'', ''simple-onnx-model'', ''simple-tensorflow-model'',
        ''simple-tensorrt-fp32-model'', ''simple-tensorrt-fp16-model'']"
  using layout_02 layout_04 layout_05 models_all by (simp add: notebooks_def)

section \<open>The configuration texts\<close>

lemma described_02:
  "(let ts = texts_written (trace_each quiet notebook_02) in length ts = 2 \<and> list_all describes ts)"
  by code_simp

lemma described_04:
  "(let ts = texts_written (trace_each quiet notebook_04) in length ts = 1 \<and> list_all describes ts)"
  by code_simp

lemma described_05:
  "(let ts = texts_written (trace_each quiet notebook_05) in length ts = 2 \<and> list_all describes ts)"
  by code_simp

lemma read_configurations:
  "read_config configuration_pytorch = Some
     \<lparr>cfg_name = ''simple-pytorch-model'', cfg_platform = ''pytorch_libtorch'',
      cfg_max_batch_size = 32,
      cfg_input = [\<lparr>t_name = ''input__0'', t_data_type = ''TYPE_FP32'', t_dims = [3, 224, 224]\<rparr>],
      cfg_output = [\<lparr>t_name = ''output__0'', t_data_type = ''TYPE_FP32'', t_dims = [1000]\<rparr>]\<rparr>"
  "read_config configuration_onnx = Some
     \<lparr>cfg_name = ''simple-onnx-model'', cfg_platform = ''onnxruntime_onnx'',
      cfg_max_batch_size = 32,
      cfg_input = [\<lparr>t_name = ''actual_input_1'', t_data_type = ''TYPE_FP32'', t_dims = [3, 224, 224]\<rparr>],
      cfg_output = [\<lparr>t_name = ''output1'', t_data_type = ''TYPE_FP32'', t_dims = [1000]\<rparr>]\<rparr>"
  "read_config configuration_tensorflow = Some
     \<lparr>cfg_name = ''simple-tensorflow-model'', cfg_platform = ''tensorflow_savedmodel'',
      cfg_max_batch_size = 32,
      cfg_input = [\<lparr>t_name = ''input_0'', t_data_type = ''TYPE_FP32'', t_dims = [224, 224, 3]\<rparr>],
      cfg_output = [\<lparr>t_name = ''output_0'', t_data_type = ''TYPE_FP32'', t_dims = [1000]\<rparr>]\<rparr>"
  "read_config configuration_fp32 = Some
     \<lparr>cfg_name = ''simple-tensorrt-fp32-model'', cfg_platform = ''tensorrt_plan'',
      cfg_max_batch_size = 32,
      cfg_input = [\<lparr>t_name = ''actual_input_1'', t_data_type = ''TYPE_FP32'', t_dims = [3, 224, 224]\<rparr>],
      cfg_output = [\<lparr>t_name = ''output1'', t_data_type = ''TYPE_FP32'', t_dims = [1000]\<rparr>]\<rparr>"
  "read_config configuration_fp16 = Some
     \<lparr>cfg_name = ''simple-tensorrt-fp16-model'', cfg_platform = ''tensorrt_plan'',
      cfg_max_batch_size = 32,
      cfg_input = [\<lparr>t_name = ''actual_input_1'', t_data_type = ''TYPE_FP32'', t_dims = [3, 224, 224]\<rparr>],
      cfg_output = [\<lparr>t_name = ''output1'', t_data_type = ''TYPE_FP32'', t_dims = [1000]\<rparr>]\<rparr>"
  by code_simp+

text \<open>
  C4. Every configuration text the notebooks write describes the model's tensors: it holds
  the model's name, a platform, \<open>max_batch_size: 32\<close>, and exactly one input and one
  output tensor, each with a name, the data type \<open>TYPE_FP32\<close> and its dimensions, three
  for the input image and \<open>[1000]\<close> for the output. The five texts are read out in
  full: the input is \<open>[3, 224, 224]\<close>, for TensorFlow \<open>[224, 224, 3]\<close>.
\<close>

theorem C4_configurations_describe_tensors:
  "list_all (\<lambda>nb. texts_written (trace_each quiet nb) \<noteq> []
                  \<and> list_all describes (texts_written (trace_each quiet nb))) notebooks
   \<and> map (map_option (\<lambda>c. (cfg_name c, cfg_platform c, cfg_max_batch_size c,
                            map t_dims (cfg_input c), map t_dims (cfg_output c))))
       (map read_config [configuration_pytorch, configuration_onnx, configuration_tensorflow,
                         configuration_fp32, configuration_fp16]) =
       [Some (''simple-pytorch-model'', ''pytorch_libtorch'', 32, [[3, 224, 224]], [[1000]]),
        Some (''simple-onnx-model'', ''onnxruntime_onnx'', 32, [[3, 224, 224]], [[1000]]),
        Some (''simple-tensorflow-model'', ''tensorflow_savedmodel'', 32, [[224, 224, 3]], [[1000]]),
        Some (''simple-tensorrt-fp32-model'', ''tensorrt_plan'', 32, [[3, 224, 224]], [[1000]]),
        Some (''simple-tensorrt-fp16-model'', ''tensorrt_plan'', 32, [[3, 224, 224]], [[1000]])]"
proof -
  have "texts_written (trace_each quiet nb) \<noteq> []
        \<and> list_all describes (texts_written (trace_each quiet nb))"
    if "nb = notebook_02 \<or> nb = notebook_04 \<or> nb = notebook_05" for nb
    using that described_02 described_04 described_05 by (auto simp: Let_def)
  then show ?thesis by (simp add: notebooks_def read_configurations)
qed

section \<open>Waiting for the server to load the models\<close>

lemma waits_each:
  "waits_once (trace_each quiet notebook_02)"
  "waits_once (trace_each quiet notebook_04)"
  "waits_once (trace_each quiet notebook_05)"
  by code_simp+

lemma waits_all:
  "waits_once (trace_all quiet notebook_02)"
  "waits_once (trace_all quiet notebook_04)"
  "waits_once (trace_all quiet notebook_05)"
  by code_simp+

lemma sleeps_at_most_once:
  assumes "list_all cell_ok nb" and "waits_once (trace_all quiet nb)"
  shows "length (filter is_sleep (trace_all w nb)) \<le> 1"
  using prefix_filter_length[OF run_all_prefix[OF assms(1), of w], of is_sleep] assms(2)
  by (simp add: waits_once_def)

text \<open>
  C6. In every notebook the only accommodation for the server's loading of the models is
  one fixed sleep of 45 seconds. Whether the notebook is run by Run All or cell by cell, it
  sleeps exactly once, after the configurations are written and before anything is asked of
  the server; the first operation after the sleep is the first request to the server; no
  URL is asked twice. In any world, Run All sleeps at most once.
\<close>

theorem C6_one_fixed_sleep:
  "list_all (\<lambda>nb. waits_once (trace_all quiet nb) \<and> waits_once (trace_each quiet nb)
                  \<and> length (filter is_sleep (trace_all w nb)) \<le> 1) notebooks"
  using waits_each waits_all
    sleeps_at_most_once[OF ok_02 waits_all(1), of w]
    sleeps_at_most_once[OF ok_04 waits_all(2), of w]
    sleeps_at_most_once[OF ok_05 waits_all(3), of w]
  by (simp add: notebooks_def)

section \<open>The file system\<close>




section \<open>Decoding the response\<close>








section \<open>Preprocessing in the PyTorch notebook\<close>

lemma preprocessing_02:
  "(let r = run_each quiet notebook_02 in
      map (map_of (fst (snd r)))
          [''imagenet_mean'', ''imagenet_std'', ''normalize'', ''transform'', ''image_tensor''] =
        [Some channel_means, Some channel_means, Some normalize_value, Some transform_value,
         Some image_tensor_value]
      \<and> map (\<lambda>ev. map input_data (infer_inputs ev)) (infers (events r)) =
          [[Some (invoke (invoke image_tensor_value ''cpu'' []) ''numpy'' [])],
           [Some (invoke (invoke image_tensor_value ''cpu'' []) ''numpy'' [])]]
      \<and> filter is_local_print (events r) = map local_print [0, 1, 2])"
  by code_simp

lemma preprocessing_all_02:
  "(let tr = trace_all quiet notebook_02 in
      map (\<lambda>ev. map input_data (infer_inputs ev)) (infers tr) =
          [[Some (invoke (invoke image_tensor_value ''cpu'' []) ''numpy'' [])]]
      \<and> filter is_local_print tr = map local_print [0, 1, 2])"
  by code_simp

lemma normalized_by_mean:
  "map (\<lambda>c. normalized normalize_value c x) [0, 1, 2, 3] =
     [Some ((x - 0.485) / 0.485), Some ((x - 0.456) / 0.456), Some ((x - 0.406) / 0.406), None]"
  by (simp add: normalized_def normalize_value_def channel_means_def keyword_def
      List.map_filter_simps)

lemma std_is_mean:
  "keyword ''std'' normalize_value = Some channel_means"
  "keyword ''mean'' normalize_value = Some channel_means"
  "channel_means \<noteq> VList [VDec 229 3, VDec 224 3, VDec 225 3]"
  by (simp_all add: normalize_value_def channel_means_def keyword_def List.map_filter_simps)

text \<open>
  C9. In the PyTorch notebook \<open>imagenet_std\<close> is the same list as
  \<open>imagenet_mean\<close>, \<open>[0.485, 0.456, 0.406]\<close>, and not the standard deviations
  \<open>[0.229, 0.224, 0.225]\<close>; \<open>normalize\<close> is built with it as \<open>std\<close>, so
  an entry \<open>x\<close> of channel \<open>c\<close> becomes \<open>(x - m) / m\<close> with the channel's
  mean \<open>m\<close>; \<open>transform\<close> ends with this \<open>normalize\<close>, and
  \<open>image_tensor\<close> is the image through \<open>transform\<close>. The local check prints
  what the model gives for this tensor, and every inference request sends
  \<open>image_tensor.cpu().numpy()\<close>, by Run All as well as with every cell run.
\<close>

theorem C9_std_is_the_mean:
  "map (final_value quiet notebook_02)
       [''imagenet_mean'', ''imagenet_std'', ''normalize'', ''transform'', ''image_tensor''] =
     [Some channel_means, Some channel_means, Some normalize_value, Some transform_value,
      Some image_tensor_value]
   \<and> keyword ''std'' normalize_value = keyword ''mean'' normalize_value
   \<and> keyword ''std'' normalize_value \<noteq> Some (VList [VDec 229 3, VDec 224 3, VDec 225 3])
   \<and> map (\<lambda>c. normalized normalize_value c x) [0, 1, 2, 3] =
       [Some ((x - 0.485) / 0.485), Some ((x - 0.456) / 0.456), Some ((x - 0.406) / 0.406),
        None]
   \<and> map (\<lambda>ev. map input_data (infer_inputs ev)) (infers (trace_each quiet notebook_02)) =
       [[Some (invoke (invoke image_tensor_value ''cpu'' []) ''numpy'' [])],
        [Some (invoke (invoke image_tensor_value ''cpu'' []) ''numpy'' [])]]
   \<and> map (\<lambda>ev. map input_data (infer_inputs ev)) (infers (trace_all quiet notebook_02)) =
       [[Some (invoke (invoke image_tensor_value ''cpu'' []) ''numpy'' [])]]
   \<and> filter is_local_print (trace_each quiet notebook_02) = map local_print [0, 1, 2]
   \<and> filter is_local_print (trace_all quiet notebook_02) = map local_print [0, 1, 2]"
  using preprocessing_02 preprocessing_all_02 normalized_by_mean[of x] std_is_mean
  by (simp add: final_value_def trace_each_def Let_def)

section \<open>Batch sizes in the TensorRT notebook\<close>

lemma batches_05:
  "(let tr = trace_each quiet notebook_05 in
      trtexec_commands tr = [trtexec_fp32, trtexec_fp16]
      \<and> config_batches tr = [Some 32, Some 32]
      \<and> request_batches tr = [Some 1, Some 1])"
  by code_simp

lemma batches_all_05:
  "(let tr = trace_all quiet notebook_05 in
      trtexec_commands tr = [trtexec_fp32, trtexec_fp16]
      \<and> config_batches tr = [Some 32, Some 32]
      \<and> request_batches tr = [Some 1])"
  by code_simp

lemma bounds_05:
  "shape_bounds trtexec_fp32 =
     [Some (''actual_input_1'', [1, 3, 224, 224]), Some (''actual_input_1'', [16, 3, 224, 224]),
      Some (''actual_input_1'', [32, 3, 224, 224])]"
  "shape_bounds trtexec_fp16 =
     [Some (''actual_input_1'', [1, 3, 224, 224]), Some (''actual_input_1'', [16, 3, 224, 224]),
      Some (''actual_input_1'', [32, 3, 224, 224])]"
  "admits trtexec_fp32 (Some 1)" "admits trtexec_fp16 (Some 1)"
  "\<not> admits trtexec_fp32 (Some 33)" "\<not> admits trtexec_fp32 (Some 0)"
  by code_simp+

text \<open>
  C10. In the TensorRT notebook both \<open>trtexec\<close> commands, for FP32 and for FP16,
  give the input \<open>actual_input_1\<close> the same shapes: the smallest with batch 1, the one
  to optimize for with batch 16, the largest with batch 32. Both configurations declare
  \<open>max_batch_size: 32\<close>, the batch of the largest shape. Every inference request sends
  a batch of 1, which both commands admit.
\<close>

theorem C10_batch_bounds:
  "trtexec_commands (trace_each quiet notebook_05) = [trtexec_fp32, trtexec_fp16]
   \<and> trtexec_commands (trace_all quiet notebook_05) = [trtexec_fp32, trtexec_fp16]
   \<and> map shape_bounds [trtexec_fp32, trtexec_fp16] =
       [[Some (''actual_input_1'', [1, 3, 224, 224]), Some (''actual_input_1'', [16, 3, 224, 224]),
         Some (''actual_input_1'', [32, 3, 224, 224])],
        [Some (''actual_input_1'', [1, 3, 224, 224]), Some (''actual_input_1'', [16, 3, 224, 224]),
         Some (''actual_input_1'', [32, 3, 224, 224])]]
   \<and> config_batches (trace_each quiet notebook_05) = [Some 32, Some 32]
   \<and> request_batches (trace_each quiet notebook_05) = [Some 1, Some 1]
   \<and> request_batches (trace_all quiet notebook_05) = [Some 1]
   \<and> list_all (\<lambda>argv. list_all (admits argv) (request_batches (trace_each quiet notebook_05)))
        (trtexec_commands (trace_each quiet notebook_05))"
  using batches_05 batches_all_05 bounds_05 by (simp add: Let_def)

end
